theory Spec2Isabelle
  imports Complex_Main
begin

section \<open>Numbers and vectors\<close>

text \<open>
  The viewer computes with JavaScript numbers. Finite numbers are modelled as reals:
  rounding and overflow of IEEE doubles are not part of the model. The coordinates of a
  mesh and the entries of its matrices are finite numbers.

  The classes \<open>Vector3\<close>, \<open>Triangle\<close> and \<open>Matrix3\<close> belong to the rendering library
  (three.js), which the viewer imports; the definitions below follow the library's methods
  that the viewer calls.
\<close>

datatype Vector3 = Vector3 (vx: real) (vy: real) (vz: real)

text \<open>\<open>new THREE.Vector3(x, y, z)\<close>: an argument that is \<open>undefined\<close> takes the default 0.\<close>

definition new_Vector3 :: "real option \<Rightarrow> real option \<Rightarrow> real option \<Rightarrow> Vector3" where
  "new_Vector3 x y z =
     Vector3 (case x of None \<Rightarrow> 0 | Some v \<Rightarrow> v)
             (case y of None \<Rightarrow> 0 | Some v \<Rightarrow> v)
             (case z of None \<Rightarrow> 0 | Some v \<Rightarrow> v)"

definition subVectors :: "Vector3 \<Rightarrow> Vector3 \<Rightarrow> Vector3" where
  "subVectors a b = Vector3 (vx a - vx b) (vy a - vy b) (vz a - vz b)"

definition cross :: "Vector3 \<Rightarrow> Vector3 \<Rightarrow> Vector3" where
  "cross a b =
     Vector3 (vy a * vz b - vz a * vy b)
             (vz a * vx b - vx a * vz b)
             (vx a * vy b - vy a * vx b)"

definition dot :: "Vector3 \<Rightarrow> Vector3 \<Rightarrow> real" where
  "dot a b = vx a * vx b + vy a * vy b + vz a * vz b"

definition length_v :: "Vector3 \<Rightarrow> real" where
  "length_v a = sqrt (vx a * vx a + vy a * vy a + vz a * vz a)"

text \<open>
  \<open>Triangle.getArea\<close> of three.js, for the triangle \<open>(a, b, c)\<close>:
  \<^verbatim>\<open>_v0.subVectors(this.c, this.b); _v1.subVectors(this.a, this.b);
  return _v0.cross(_v1).length() * 0.5;\<close>
\<close>

definition getArea :: "Vector3 \<Rightarrow> Vector3 \<Rightarrow> Vector3 \<Rightarrow> real" where
  "getArea a b c = length_v (cross (subVectors c b) (subVectors a b)) * 0.5"

section \<open>The Geometry Area Calculator\<close>

datatype error = TypeError | SyntaxError

text \<open>
  A geometry holds its attributes; \<open>position\<close> is the array of the position attribute,
  \<open>None\<close> when the geometry has no such attribute.
\<close>

record geometry =
  position :: "real list option"

text \<open>Reading a typed array: an index past the end gives \<open>undefined\<close>.\<close>

definition read_at :: "real list \<Rightarrow> nat \<Rightarrow> real option" where
  "read_at positions i = (if i < length positions then Some (positions ! i) else None)"

text \<open>
  The loop of \<open>calculateSurfaceArea\<close>:
  \<^verbatim>\<open>for (let i = 0; i < positions.length; i += 9) { ... area += ...getArea(); }\<close>
\<close>

function area_loop :: "real list \<Rightarrow> nat \<Rightarrow> real \<Rightarrow> real" where
  "area_loop positions i area =
     (if i < length positions then
        (let v1 = new_Vector3 (read_at positions i) (read_at positions (i + 1)) (read_at positions (i + 2));
             v2 = new_Vector3 (read_at positions (i + 3)) (read_at positions (i + 4)) (read_at positions (i + 5));
             v3 = new_Vector3 (read_at positions (i + 6)) (read_at positions (i + 7)) (read_at positions (i + 8))
         in area_loop positions (i + 9) (area + getArea v1 v2 v3))
      else area)"
  by pat_completeness auto
termination
  by (relation "measure (\<lambda>(positions, i, area). length positions - i)") auto

declare area_loop.simps [simp del]

definition calculateSurfaceArea :: "geometry \<Rightarrow> error + real" where
  "calculateSurfaceArea g =
     (case position g of
        None \<Rightarrow> Inl TypeError
      | Some positions \<Rightarrow> Inr (area_loop positions 0 0))"

subsection \<open>The area formula of the specification\<close>

text \<open>
  The specification's formula for a triangle \<open>(v1, v2, v3)\<close>:
  0.5 times the magnitude of \<open>(v2 - v1) \<times> (v3 - v1)\<close>.
\<close>

definition spec_triangle_area :: "Vector3 \<Rightarrow> Vector3 \<Rightarrow> Vector3 \<Rightarrow> real" where
  "spec_triangle_area v1 v2 v3 =
     0.5 * length_v (cross (subVectors v2 v1) (subVectors v3 v1))"

text \<open>The point stored at index \<open>i\<close> of a buffer that holds it whole.\<close>

definition point_at :: "real list \<Rightarrow> nat \<Rightarrow> Vector3" where
  "point_at positions i = Vector3 (positions ! i) (positions ! (i + 1)) (positions ! (i + 2))"

text \<open>The buffer that encodes one triangle.\<close>

definition encode_triangle :: "Vector3 \<Rightarrow> Vector3 \<Rightarrow> Vector3 \<Rightarrow> real list" where
  "encode_triangle a b c = [vx a, vy a, vz a, vx b, vy b, vz b, vx c, vy c, vz c]"

text \<open>A right angle at \<open>p\<close> between the legs \<open>p q\<close> and \<open>p r\<close>, both of length \<open>L\<close>.\<close>

definition right_angle_at :: "real \<Rightarrow> Vector3 \<Rightarrow> Vector3 \<Rightarrow> Vector3 \<Rightarrow> bool" where
  "right_angle_at L p q r \<longleftrightarrow>
     dot (subVectors q p) (subVectors r p) = 0 \<and>
     length_v (subVectors q p) = L \<and> length_v (subVectors r p) = L"

definition right_triangle :: "real \<Rightarrow> Vector3 \<Rightarrow> Vector3 \<Rightarrow> Vector3 \<Rightarrow> bool" where
  "right_triangle L a b c \<longleftrightarrow>
     right_angle_at L a b c \<or> right_angle_at L b c a \<or> right_angle_at L c a b"

text \<open>The buffer cut to whole groups of nine, and the buffer filled up with zeros.\<close>

definition truncate9 :: "real list \<Rightarrow> real list" where
  "truncate9 positions = take (9 * (length positions div 9)) positions"

definition pad9 :: "real list \<Rightarrow> real list" where
  "pad9 positions = positions @ replicate ((9 - length positions mod 9) mod 9) 0"

section \<open>The Surface Irradiance Estimator\<close>

subsection \<open>Numbers that may be NaN or infinite\<close>

text \<open>
  The GHI value comes from a query string, through \<open>parseFloat\<close> and \<open>||\<close>, so it may be
  \<open>NaN\<close> or infinite; it and the numbers computed from it are values of \<open>jsnum\<close>,
  with the multiplication and addition of JavaScript on them.
\<close>

datatype jsnum = NaN | Num real | Infinity | NegInfinity

fun jneg :: "jsnum \<Rightarrow> jsnum" where
  "jneg NaN = NaN"
| "jneg (Num a) = Num (- a)"
| "jneg Infinity = NegInfinity"
| "jneg NegInfinity = Infinity"

text \<open>An infinity of the given sign.\<close>

definition signed_infinity :: "bool \<Rightarrow> jsnum" where
  "signed_infinity positive = (if positive then Infinity else NegInfinity)"

fun jmul :: "jsnum \<Rightarrow> jsnum \<Rightarrow> jsnum" where
  "jmul NaN b = NaN"
| "jmul a NaN = NaN"
| "jmul (Num a) (Num b) = Num (a * b)"
| "jmul (Num a) Infinity = (if a = 0 then NaN else signed_infinity (0 < a))"
| "jmul (Num a) NegInfinity = (if a = 0 then NaN else signed_infinity (a < 0))"
| "jmul Infinity (Num b) = (if b = 0 then NaN else signed_infinity (0 < b))"
| "jmul NegInfinity (Num b) = (if b = 0 then NaN else signed_infinity (b < 0))"
| "jmul Infinity Infinity = Infinity"
| "jmul Infinity NegInfinity = NegInfinity"
| "jmul NegInfinity Infinity = NegInfinity"
| "jmul NegInfinity NegInfinity = Infinity"

fun jadd :: "jsnum \<Rightarrow> jsnum \<Rightarrow> jsnum" where
  "jadd NaN b = NaN"
| "jadd a NaN = NaN"
| "jadd (Num a) (Num b) = Num (a + b)"
| "jadd (Num a) b = b"
| "jadd a (Num b) = a"
| "jadd Infinity Infinity = Infinity"
| "jadd NegInfinity NegInfinity = NegInfinity"
| "jadd Infinity NegInfinity = NaN"
| "jadd NegInfinity Infinity = NaN"

text \<open>\<open>a || b\<close> on numbers: \<open>NaN\<close> and zero are falsy.\<close>

definition truthy_num :: "jsnum \<Rightarrow> bool" where
  "truthy_num a \<longleftrightarrow> a \<noteq> NaN \<and> a \<noteq> Num 0"

definition or_num :: "jsnum \<Rightarrow> jsnum \<Rightarrow> jsnum" where
  "or_num a b = (if truthy_num a then a else b)"

subsection \<open>\<open>parseFloat\<close>\<close>

text \<open>
  \<open>parseFloat\<close> is a function of the language. It skips leading white space and reads the
  longest prefix that is a decimal literal: an optional sign, then \<open>Infinity\<close>, or digits
  with an optional fraction, or a fraction alone, then an optional exponent; when there is
  no such prefix the result is \<open>NaN\<close>. Characters are bytes here, so the white space
  characters beyond Latin-1 are not in the model.

  The value of the literal becomes a number by rounding to the nearest double, ties to
  even. A value of at most \<open>1 / 2 ^ 1075\<close>, half the least positive double, becomes 0, and a
  value of at least \<open>2 ^ 1024 - 2 ^ 970\<close>, half a step above the greatest double, becomes
  \<open>Infinity\<close>. Between the two the model keeps the value of the literal unrounded.
\<close>

definition is_white :: "char \<Rightarrow> bool" where
  "is_white c \<longleftrightarrow> of_char c \<in> {9, 10, 11, 12, 13, 32, 160 :: nat}"

definition is_digit :: "char \<Rightarrow> bool" where
  "is_digit c \<longleftrightarrow> c \<in> set ''0123456789''"

definition digit_val :: "char \<Rightarrow> nat" where
  "digit_val c = of_char c - 48"

definition digits_val :: "string \<Rightarrow> nat" where
  "digits_val ds = foldl (\<lambda>a c. 10 * a + digit_val c) 0 ds"

text \<open>
  The exponent part at the head of a string: \<open>e\<close> or \<open>E\<close>, an optional sign and at least
  one digit. Where it is missing the exponent is 0.
\<close>

definition parse_exponent :: "string \<Rightarrow> int" where
  "parse_exponent s =
     (case s of
        [] \<Rightarrow> 0
      | c # r \<Rightarrow>
          if c = CHR ''e'' \<or> c = CHR ''E'' then
            (case r of
               [] \<Rightarrow> 0
             | d # r' \<Rightarrow>
                 if d = CHR ''+'' then int (digits_val (takeWhile is_digit r'))
                 else if d = CHR ''-'' then - int (digits_val (takeWhile is_digit r'))
                 else int (digits_val (takeWhile is_digit r)))
          else 0)"

definition scale10 :: "real \<Rightarrow> int \<Rightarrow> real" where
  "scale10 m e = (if 0 \<le> e then m * 10 ^ nat e else m / 10 ^ nat (- e))"

definition number_value :: "real \<Rightarrow> jsnum" where
  "number_value x =
     (if x \<le> 1 / 2 ^ 1075 then Num 0
      else if 2 ^ 1024 - 2 ^ 970 \<le> x then Infinity
      else Num x)"

definition parse_unsigned :: "string \<Rightarrow> jsnum" where
  "parse_unsigned s =
     (if take 8 s = ''Infinity'' then Infinity
      else
        let ip = takeWhile is_digit s; r1 = dropWhile is_digit s in
        (case r1 of
           [] \<Rightarrow> if ip = [] then NaN else number_value (real (digits_val ip))
         | c # r2 \<Rightarrow>
             if c = CHR ''.'' then
               (let fp = takeWhile is_digit r2; r3 = dropWhile is_digit r2 in
                if ip = [] \<and> fp = [] then NaN
                else number_value
                       (scale10 (real (digits_val ip) + real (digits_val fp) / 10 ^ length fp)
                          (parse_exponent r3)))
             else if ip = [] then NaN
             else number_value (scale10 (real (digits_val ip)) (parse_exponent r1))))"

definition parseFloat :: "string \<Rightarrow> jsnum" where
  "parseFloat s =
     (case dropWhile is_white s of
        [] \<Rightarrow> NaN
      | c # r \<Rightarrow>
          if c = CHR ''+'' then parse_unsigned r
          else if c = CHR ''-'' then jneg (parse_unsigned r)
          else parse_unsigned (c # r))"

text \<open>
  \<open>URLSearchParams.get\<close> gives the first value stored under the name, or \<open>null\<close>;
  \<open>parseFloat\<close> turns its argument into a string first, and \<open>null\<close> into \<open>"null"\<close>.
\<close>

type_synonym search_params = "(string \<times> string) list"

definition params_get :: "search_params \<Rightarrow> string \<Rightarrow> string option" where
  "params_get ps name = map_of ps name"

definition to_string :: "string option \<Rightarrow> string" where
  "to_string v = (case v of None \<Rightarrow> ''null'' | Some s \<Rightarrow> s)"

text \<open>\<^verbatim>\<open>const ghi = parseFloat(this.params.get('ghi')) || 5.0;\<close>\<close>

definition ghi_of_params :: "search_params \<Rightarrow> jsnum" where
  "ghi_of_params ps = or_num (parseFloat (to_string (params_get ps ''ghi''))) (Num 5.0)"

subsection \<open>Matrices\<close>

text \<open>
  The elements of a three.js matrix, in the order of its \<open>elements\<close> array
  (column by column).
\<close>

datatype Matrix3 = Matrix3 real real real real real real real real real

datatype Matrix4 =
  Matrix4 real real real real real real real real real real real real real real real real

fun setFromMatrix4 :: "Matrix4 \<Rightarrow> Matrix3" where
  "setFromMatrix4 (Matrix4 m0 m1 m2 m3 m4 m5 m6 m7 m8 m9 m10 m11 m12 m13 m14 m15) =
     Matrix3 m0 m1 m2 m4 m5 m6 m8 m9 m10"

fun invert :: "Matrix3 \<Rightarrow> Matrix3" where
  "invert (Matrix3 n11 n21 n31 n12 n22 n32 n13 n23 n33) =
     (let t11 = n33 * n22 - n32 * n23;
          t12 = n32 * n13 - n33 * n12;
          t13 = n23 * n12 - n22 * n13;
          det = n11 * t11 + n21 * t12 + n31 * t13
      in if det = 0 then Matrix3 0 0 0 0 0 0 0 0 0
         else
           (let detInv = 1 / det
            in Matrix3 (t11 * detInv)
                 ((n31 * n23 - n33 * n21) * detInv)
                 ((n32 * n21 - n31 * n22) * detInv)
                 (t12 * detInv)
                 ((n33 * n11 - n31 * n13) * detInv)
                 ((n31 * n12 - n32 * n11) * detInv)
                 (t13 * detInv)
                 ((n21 * n13 - n23 * n11) * detInv)
                 ((n22 * n11 - n21 * n12) * detInv)))"

fun transpose_m :: "Matrix3 \<Rightarrow> Matrix3" where
  "transpose_m (Matrix3 e0 e1 e2 e3 e4 e5 e6 e7 e8) = Matrix3 e0 e3 e6 e1 e4 e7 e2 e5 e8"

definition getNormalMatrix :: "Matrix4 \<Rightarrow> Matrix3" where
  "getNormalMatrix matrix4 = transpose_m (invert (setFromMatrix4 matrix4))"

fun applyMatrix3 :: "Vector3 \<Rightarrow> Matrix3 \<Rightarrow> Vector3" where
  "applyMatrix3 (Vector3 x y z) (Matrix3 e0 e1 e2 e3 e4 e5 e6 e7 e8) =
     Vector3 (e0 * x + e3 * y + e6 * z) (e1 * x + e4 * y + e7 * z) (e2 * x + e5 * y + e8 * z)"

text \<open>\<open>normalize\<close>: \<^verbatim>\<open>this.divideScalar(this.length() || 1)\<close>, a multiplication by the inverse.\<close>

definition normalize :: "Vector3 \<Rightarrow> Vector3" where
  "normalize v =
     (let l = length_v v; s = (if l = 0 then 1 else l)
      in Vector3 (vx v * (1 / s)) (vy v * (1 / s)) (vz v * (1 / s)))"

subsection \<open>The scene graph\<close>

datatype colour = Hex nat | HSL real real real

record material =
  color :: colour

record object_fields =
  isMesh :: bool
  geometry :: "geometry option"
  matrixWorld :: Matrix4
  material :: "material option"

datatype Object3D = Object3D (fields: object_fields) (children: "Object3D list")

text \<open>
  \<open>traverse\<close> calls the callback on the object, then traverses the children in order.
  The callback may change the object it visits and the state of the enclosing function;
  an exception it throws ends the traversal.
\<close>

fun traverse ::
    "(object_fields \<Rightarrow> 's \<Rightarrow> error + object_fields \<times> 's) \<Rightarrow> Object3D \<Rightarrow> 's \<Rightarrow> error + Object3D \<times> 's"
  and traverse_children ::
    "(object_fields \<Rightarrow> 's \<Rightarrow> error + object_fields \<times> 's) \<Rightarrow> Object3D list \<Rightarrow> 's \<Rightarrow>
       error + Object3D list \<times> 's"
where
  "traverse callback (Object3D obj cs) s =
     (case callback obj s of
        Inl e \<Rightarrow> Inl e
      | Inr (obj', s') \<Rightarrow>
          (case traverse_children callback cs s' of
             Inl e \<Rightarrow> Inl e
           | Inr (cs', s'') \<Rightarrow> Inr (Object3D obj' cs', s'')))"
| "traverse_children callback [] s = Inr ([], s)"
| "traverse_children callback (c # cs) s =
     (case traverse callback c s of
        Inl e \<Rightarrow> Inl e
      | Inr (c', s') \<Rightarrow>
          (case traverse_children callback cs s' of
             Inl e \<Rightarrow> Inl e
           | Inr (cs', s'') \<Rightarrow> Inr (c' # cs', s'')))"

subsection \<open>\<open>calculateBIPVPotential\<close>\<close>

text \<open>The representative normal of a mesh and its incidence factor (\<open>angle\<close> in the code).\<close>

definition representative_normal :: "Matrix4 \<Rightarrow> Vector3" where
  "representative_normal mw = normalize (applyMatrix3 (Vector3 0 1 0) (getNormalMatrix mw))"

definition incidence :: "Matrix4 \<Rightarrow> Vector3 \<Rightarrow> real" where
  "incidence mw sun_position =
     max 0 (dot (representative_normal mw) (normalize sun_position))"

text \<open>
  The callback of the traversal, on one object.
  \<open>computeVertexNormals\<close> writes the normal attribute of the geometry only, which nothing
  here reads; it is left out.
\<close>

definition visit ::
    "jsnum \<Rightarrow> Vector3 \<Rightarrow> object_fields \<Rightarrow> jsnum \<Rightarrow> error + object_fields \<times> jsnum" where
  "visit ghi sun_position child totalPotential =
     (case (if isMesh child then geometry child else None) of
        None \<Rightarrow> Inr (child, totalPotential)
      | Some g \<Rightarrow>
          (case position g of
             None \<Rightarrow> Inr (child, totalPotential)
           | Some _ \<Rightarrow>
               (let angle = incidence (matrixWorld child) sun_position
                in case calculateSurfaceArea g of
                     Inl e \<Rightarrow> Inl e
                   | Inr surfaceArea \<Rightarrow>
                       (let efficiency = 0.15;
                            energy = jmul (jmul (jmul ghi (Num surfaceArea)) (Num angle))
                                       (Num efficiency);
                            totalPotential' = jadd totalPotential energy;
                            child' = (case material child of
                                        None \<Rightarrow> child
                                      | Some m \<Rightarrow>
                                          child\<lparr>material :=
                                            Some (m\<lparr>color := HSL (angle * 0.3) 1 0.5\<rparr>)\<rparr>)
                        in Inr (child', totalPotential')))))"

text \<open>
  The overlay shows the GHI value and the total (the code prints the total with two
  decimals; the text is not modelled).
\<close>

datatype overlay_content = Summary jsnum jsnum

record viewer =
  params :: search_params
  cityModel :: "Object3D option"
  sunLight_position :: Vector3
  overlay_exists :: bool
  overlay_innerHTML :: "overlay_content option"

text \<open>\<open>setupLights\<close> puts the directional light at (100, 500, 100).\<close>

definition setupLights :: "viewer \<Rightarrow> viewer" where
  "setupLights v = v\<lparr>sunLight_position := Vector3 100 500 100\<rparr>"

definition updateOverlay :: "viewer \<Rightarrow> overlay_content \<Rightarrow> viewer" where
  "updateOverlay v content =
     (if overlay_exists v then v\<lparr>overlay_innerHTML := Some content\<rparr> else v)"

definition calculateBIPVPotential :: "viewer \<Rightarrow> error + viewer" where
  "calculateBIPVPotential v =
     (case cityModel v of
        None \<Rightarrow> Inr v
      | Some model \<Rightarrow>
          (let ghi = ghi_of_params (params v)
           in case traverse (visit ghi (sunLight_position v)) model (Num 0) of
                Inl e \<Rightarrow> Inl e
              | Inr (model', totalPotential) \<Rightarrow>
                  Inr (updateOverlay (v\<lparr>cityModel := Some model'\<rparr>)
                         (Summary ghi totalPotential))))"

text \<open>The total that the traversal accumulates, for a GHI value and a light position.\<close>

definition scene_total :: "jsnum \<Rightarrow> Vector3 \<Rightarrow> Object3D \<Rightarrow> error + jsnum" where
  "scene_total ghi sun_position model =
     (case traverse (visit ghi sun_position) model (Num 0) of
        Inl e \<Rightarrow> Inl e
      | Inr (model', totalPotential) \<Rightarrow> Inr totalPotential)"

text \<open>The objects of a scene graph, in the order of the traversal.\<close>

fun objects :: "Object3D \<Rightarrow> object_fields list"
  and objects_list :: "Object3D list \<Rightarrow> object_fields list"
where
  "objects (Object3D obj cs) = obj # objects_list cs"
| "objects_list [] = []"
| "objects_list (c # cs) = objects c @ objects_list cs"

text \<open>A mesh with a geometry that has a position attribute.\<close>

definition mesh_with_position :: "object_fields \<Rightarrow> bool" where
  "mesh_with_position obj \<longleftrightarrow>
     isMesh obj \<and> (case geometry obj of None \<Rightarrow> False | Some g \<Rightarrow> position g \<noteq> None)"




section \<open>The upload gateway\<close>















section \<open>JSON values\<close>

text \<open>
  The values that \<open>response.json()\<close> can give, \<open>undefined\<close>, and the built-in values that
  the prototypes of the language hold (functions, and for \<open>__proto__\<close> the prototype
  itself), named by the property that reaches them. Numbers are finite. The list of an
  object holds its own properties, with distinct names.
\<close>

datatype jsval =
    JUndefined
  | JNull
  | JBool bool
  | JNum real
  | JStr string
  | JArr "jsval list"
  | JObj "(string \<times> jsval) list"
  | JBuiltin string

text \<open>A property name that is an array index: decimal digits without a leading zero.\<close>

definition array_index :: "string \<Rightarrow> nat option" where
  "array_index k =
     (if k \<noteq> [] \<and> list_all is_digit k \<and> (k = ''0'' \<or> hd k \<noteq> CHR ''0'')
      then Some (digits_val k) else None)"

text \<open>
  The own properties of a value: the members of an object, the elements and the length of
  an array, the characters and the length of a string.
\<close>

fun own_property :: "jsval \<Rightarrow> string \<Rightarrow> jsval option" where
  "own_property (JObj kvs) k = map_of kvs k"
| "own_property (JArr xs) k =
     (case array_index k of
        Some n \<Rightarrow> if n < length xs then Some (xs ! n) else None
      | None \<Rightarrow> if k = ''length'' then Some (JNum (real (length xs))) else None)"
| "own_property (JStr s) k =
     (case array_index k of
        Some n \<Rightarrow> if n < length s then Some (JStr [s ! n]) else None
      | None \<Rightarrow> if k = ''length'' then Some (JNum (real (length s))) else None)"
| "own_property v k = None"

text \<open>
  The names of the properties that a value inherits: those of \<open>Object.prototype\<close>, and
  before them those of the prototype of arrays, strings, numbers and booleans. The lists
  are those of ECMAScript 2024 with its Annex B; an older engine lacks some of the newer
  methods of arrays and strings.
\<close>

definition object_prototype_names :: "string list" where
  "object_prototype_names =
     [''constructor'', ''__defineGetter__'', ''__defineSetter__'', ''hasOwnProperty'',
      ''__lookupGetter__'', ''__lookupSetter__'', ''isPrototypeOf'', ''propertyIsEnumerable'',
      ''toString'', ''valueOf'', ''__proto__'', ''toLocaleString'']"

definition array_prototype_names :: "string list" where
  "array_prototype_names =
     [''length'', ''constructor'', ''at'', ''concat'', ''copyWithin'', ''fill'', ''find'',
      ''findIndex'', ''findLast'', ''findLastIndex'', ''lastIndexOf'', ''pop'', ''push'',
      ''reverse'', ''shift'', ''unshift'', ''slice'', ''sort'', ''splice'', ''includes'',
      ''indexOf'', ''join'', ''keys'', ''entries'', ''values'', ''forEach'', ''filter'',
      ''flat'', ''flatMap'', ''map'', ''every'', ''some'', ''reduce'', ''reduceRight'',
      ''toReversed'', ''toSorted'', ''toSpliced'', ''with'', ''toLocaleString'', ''toString'']"

definition string_prototype_names :: "string list" where
  "string_prototype_names =
     [''length'', ''constructor'', ''anchor'', ''at'', ''big'', ''blink'', ''bold'', ''charAt'',
      ''charCodeAt'', ''codePointAt'', ''concat'', ''endsWith'', ''fontcolor'', ''fontsize'',
      ''fixed'', ''includes'', ''indexOf'', ''isWellFormed'', ''italics'', ''lastIndexOf'',
      ''link'', ''localeCompare'', ''match'', ''matchAll'', ''normalize'', ''padEnd'',
      ''padStart'', ''repeat'', ''replace'', ''replaceAll'', ''search'', ''slice'', ''small'',
      ''split'', ''strike'', ''sub'', ''substr'', ''substring'', ''sup'', ''startsWith'',
      ''toString'', ''toWellFormed'', ''trim'', ''trimStart'', ''trimLeft'', ''trimEnd'',
      ''trimRight'', ''toLocaleLowerCase'', ''toLocaleUpperCase'', ''toLowerCase'',
      ''toUpperCase'', ''valueOf'']"

definition number_prototype_names :: "string list" where
  "number_prototype_names =
     [''constructor'', ''toExponential'', ''toFixed'', ''toPrecision'', ''toString'',
      ''valueOf'', ''toLocaleString'']"

definition boolean_prototype_names :: "string list" where
  "boolean_prototype_names = [''constructor'', ''toString'', ''valueOf'']"

fun prototype_names :: "jsval \<Rightarrow> string list" where
  "prototype_names (JObj kvs) = object_prototype_names"
| "prototype_names (JArr xs) = array_prototype_names @ object_prototype_names"
| "prototype_names (JStr s) = string_prototype_names @ object_prototype_names"
| "prototype_names (JNum x) = number_prototype_names @ object_prototype_names"
| "prototype_names (JBool b) = boolean_prototype_names @ object_prototype_names"
| "prototype_names v = []"


text \<open>
  Reading a property \<open>v[k]\<close>: a \<open>TypeError\<close> on \<open>undefined\<close> and \<open>null\<close>; otherwise the own
  property of that name, else the inherited one, else \<open>undefined\<close>. The properties of a
  built-in value are not modelled: the program reads properties of parsed bodies only, and
  under the names \<open>properties\<close>, \<open>parameter\<close>, \<open>ALLSKY_SFC_SW_DWN\<close> and \<open>filename\<close>, which
  no prototype defines, its reads stay inside the parsed body.
\<close>

fun get_prop :: "jsval \<Rightarrow> string \<Rightarrow> error + jsval" where
  "get_prop JUndefined k = Inl TypeError"
| "get_prop JNull k = Inl TypeError"
| "get_prop v k =
     Inr (case own_property v k of
            Some x \<Rightarrow> x
          | None \<Rightarrow> if k \<in> set (prototype_names v) then JBuiltin k else JUndefined)"

text \<open>The values that count as true in a condition.\<close>

fun truthy :: "jsval \<Rightarrow> bool" where
  "truthy JUndefined = False"
| "truthy JNull = False"
| "truthy (JBool b) = b"
| "truthy (JNum x) = (x \<noteq> 0)"
| "truthy (JStr s) = (s \<noteq> [])"
| "truthy (JArr xs) = True"
| "truthy (JObj kvs) = True"
| "truthy (JBuiltin n) = True"

section \<open>The upload handler\<close>





section \<open>The upload form\<close>

text \<open>
  What \<open>fetch\<close> can do: reject (a network error), or resolve with a response, whose
  \<open>json()\<close> rejects on a malformed body (\<open>None\<close>) or gives the parsed value.
\<close>

datatype fetch_outcome =
    NetworkError
  | HttpResponse (ok: bool) (statusText: string) (json: "jsval option")

text \<open>The effects of the page, in the order in which they happen.\<close>

datatype event =
    PreventDefault
  | GhiRequest string
  | GhiResponse fetch_outcome
  | ConsoleError string
  | Alert string
  | UploadRequest "string option"
  | UploadResponse fetch_outcome
  | ConsoleLog jsval
  | Navigate "(string \<times> jsval) list"

definition api_url :: "string \<Rightarrow> string \<Rightarrow> string \<Rightarrow> string" where
  "api_url lat lon date =
     ''https://power.larc.nasa.gov/api/temporal/daily/point?parameters=ALLSKY_SFC_SW_DWN'' @
     ''&community=RE&longitude='' @ lon @ ''&latitude='' @ lat @
     ''&start='' @ date @ ''&end='' @ date @ ''&format=JSON''"

text \<open>
  The value \<^verbatim>\<open>data.properties.parameter.ALLSKY_SFC_SW_DWN[date]\<close>: first the object
  \<^verbatim>\<open>data.properties.parameter.ALLSKY_SFC_SW_DWN\<close>, then its property \<open>date\<close>.
\<close>

definition ghi_series :: "jsval \<Rightarrow> error + jsval" where
  "ghi_series data =
     (case get_prop data ''properties'' of
        Inl e \<Rightarrow> Inl e
      | Inr properties \<Rightarrow>
          (case get_prop properties ''parameter'' of
             Inl e \<Rightarrow> Inl e
           | Inr parameter \<Rightarrow> get_prop parameter ''ALLSKY_SFC_SW_DWN''))"

definition extract_ghi :: "jsval \<Rightarrow> string \<Rightarrow> error + jsval" where
  "extract_ghi data date =
     (case ghi_series data of
        Inl e \<Rightarrow> Inl e
      | Inr series \<Rightarrow> get_prop series date)"




text \<open>
  The body of the \<open>try\<close> block of \<open>fetchGHI\<close>: the value it returns, or the exception
  it throws, with the effects so far.
\<close>

definition fetchGHI_try :: "string \<Rightarrow> fetch_outcome \<Rightarrow> event list \<times> (error + jsval)" where
  "fetchGHI_try date outcome =
     (case outcome of
        NetworkError \<Rightarrow> ([GhiResponse outcome], Inl TypeError)
      | HttpResponse is_ok text parsed \<Rightarrow>
          if is_ok then
            (case parsed of
               None \<Rightarrow> ([GhiResponse outcome], Inl SyntaxError)
             | Some data \<Rightarrow> ([GhiResponse outcome], extract_ghi data date))
          else ([GhiResponse outcome, ConsoleError ''Failed to fetch GHI:''], Inr JNull))"

text \<open>\<open>fetchGHI\<close>: the \<open>catch\<close> clause logs the exception and returns \<open>null\<close>.\<close>

definition fetchGHI ::
    "string \<Rightarrow> string \<Rightarrow> string \<Rightarrow> fetch_outcome \<Rightarrow> event list \<times> (error + jsval)" where
  "fetchGHI lat lon date outcome =
     (case fetchGHI_try date outcome of
        (evs, Inl e) \<Rightarrow>
          (GhiRequest (api_url lat lon date) # evs @ [ConsoleError ''Error fetching GHI:''],
           Inr JNull)
      | (evs, Inr v) \<Rightarrow> (GhiRequest (api_url lat lon date) # evs, Inr v))"

text \<open>The form: the chosen file, if any, and the values of the three input fields.\<close>

record form =
  chosen_file :: "string option"
  latitude :: string
  longitude :: string
  date_value :: string

text \<open>What the two requests meet: the outcome of each \<open>fetch\<close>.\<close>

record network =
  ghi_outcome :: fetch_outcome
  upload_outcome :: fetch_outcome

text \<open>
  After the GHI value is there: the part of the \<open>try\<close> block of the submit handler from
  the upload request on. An exception leaves the block at once.
\<close>

definition upload_and_navigate ::
    "form \<Rightarrow> string \<Rightarrow> jsval \<Rightarrow> fetch_outcome \<Rightarrow> event list \<times> (error + unit)" where
  "upload_and_navigate f date ghi outcome =
     (case outcome of
        NetworkError \<Rightarrow> ([UploadRequest (chosen_file f), UploadResponse outcome], Inl TypeError)
      | HttpResponse is_ok text parsed \<Rightarrow>
          if is_ok then
            (case parsed of
               None \<Rightarrow> ([UploadRequest (chosen_file f), UploadResponse outcome], Inl SyntaxError)
             | Some data \<Rightarrow>
                 (case get_prop data ''filename'' of
                    Inl e \<Rightarrow> ([UploadRequest (chosen_file f), UploadResponse outcome], Inl e)
                  | Inr name \<Rightarrow>
                      ([UploadRequest (chosen_file f), UploadResponse outcome, ConsoleLog ghi,
                        Navigate [(''model'', name), (''lat'', JStr (latitude f)),
                                  (''lng'', JStr (longitude f)), (''date'', JStr date),
                                  (''ghi'', ghi)]],
                       Inr ())))
          else ([UploadRequest (chosen_file f), UploadResponse outcome], Inr ()))"

text \<open>
  The submit handler. The date loses its dashes; the handler waits for \<open>fetchGHI\<close>, and
  only then goes on. Its \<open>catch\<close> clause logs an exception of the \<open>try\<close> block.
\<close>

definition submit_handler :: "form \<Rightarrow> network \<Rightarrow> event list" where
  "submit_handler f net =
     (let date = filter (\<lambda>c. c \<noteq> CHR ''-'') (date_value f)
      in case fetchGHI (latitude f) (longitude f) date (ghi_outcome net) of
           (evs, Inl e) \<Rightarrow> PreventDefault # evs @ [ConsoleError ''Upload failed:'']
         | (evs, Inr ghi) \<Rightarrow>
             if \<not> truthy ghi then
               PreventDefault # evs @ [Alert ''Failed to retrieve GHI data. Please try again.'']
             else
               (case upload_and_navigate f date ghi (upload_outcome net) of
                  (evs', Inl e) \<Rightarrow> PreventDefault # evs @ evs' @ [ConsoleError ''Upload failed:'']
                | (evs', Inr u) \<Rightarrow> PreventDefault # evs @ evs'))"

text \<open>
  On a list of events: every event that satisfies \<open>Q\<close> comes after an event that
  satisfies \<open>P\<close>.
\<close>

fun precedes :: "(event \<Rightarrow> bool) \<Rightarrow> (event \<Rightarrow> bool) \<Rightarrow> event list \<Rightarrow> bool" where
  "precedes P Q [] = True"
| "precedes P Q (e # es) = (\<not> Q e \<and> (P e \<or> precedes P Q es))"

section \<open>Properties of the area calculator\<close>

lemma cross_shift_b:
  "cross (subVectors c b) (subVectors a b) = cross (subVectors b a) (subVectors c a)"
  by (simp add: cross_def subVectors_def algebra_simps)

lemma cross_shift_c:
  "cross (subVectors a c) (subVectors b c) = cross (subVectors b a) (subVectors c a)"
  by (simp add: cross_def subVectors_def algebra_simps)

lemma getArea_spec: "getArea v1 v2 v3 = spec_triangle_area v1 v2 v3"
  by (simp add: getArea_def spec_triangle_area_def cross_shift_b)

lemma lagrange:
  "dot (cross u v) (cross u v) = dot u u * dot v v - (dot u v)\<^sup>2"
  by (simp add: dot_def cross_def power2_eq_square algebra_simps)

lemma length_v_sq: "(length_v u)\<^sup>2 = dot u u"
  by (simp add: length_v_def dot_def)

lemma length_v_nonneg: "0 \<le> length_v u"
  by (simp add: length_v_def)

lemma cross_right_angle:
  assumes "dot u v = 0" and "length_v u = L" and "length_v v = L"
  shows "length_v (cross u v) = L\<^sup>2"
proof -
  have L: "0 \<le> L" using assms(2) length_v_nonneg by blast
  have "(length_v (cross u v))\<^sup>2 = dot u u * dot v v - (dot u v)\<^sup>2"
    by (simp add: length_v_sq lagrange)
  also have "\<dots> = (L\<^sup>2)\<^sup>2"
    using assms length_v_sq [of u] length_v_sq [of v] by (simp add: power2_eq_square)
  finally have "(length_v (cross u v))\<^sup>2 = (L\<^sup>2)\<^sup>2" .
  then show ?thesis
    by (rule power2_eq_imp_eq) (simp_all add: length_v_nonneg)
qed

lemma read_at_in: "i < length positions \<Longrightarrow> read_at positions i = Some (positions ! i)"
  by (simp add: read_at_def)

lemma read_at_out: "length positions \<le> i \<Longrightarrow> read_at positions i = None"
  by (simp add: read_at_def)

text \<open>One whole group of nine values at index \<open>i\<close> is read as three points.\<close>

lemma area_loop_step:
  assumes "i + 9 \<le> length positions"
  shows "area_loop positions i area =
         area_loop positions (i + 9)
           (area + spec_triangle_area (point_at positions i) (point_at positions (i + 3))
                     (point_at positions (i + 6)))"
proof -
  have "i < length positions" using assms by simp
  moreover have "new_Vector3 (read_at positions i) (read_at positions (i + 1))
                   (read_at positions (i + 2)) = point_at positions i"
    using assms by (simp add: read_at_in new_Vector3_def point_at_def add.commute)
  moreover have "new_Vector3 (read_at positions (i + 3)) (read_at positions (i + 4))
                   (read_at positions (i + 5)) = point_at positions (i + 3)"
    using assms by (simp add: read_at_in new_Vector3_def point_at_def add.commute)
  moreover have "new_Vector3 (read_at positions (i + 6)) (read_at positions (i + 7))
                   (read_at positions (i + 8)) = point_at positions (i + 6)"
    using assms by (simp add: read_at_in new_Vector3_def point_at_def add.commute)
  ultimately show ?thesis
    by (subst area_loop.simps) (simp add: getArea_spec)
qed

lemma area_loop_done: "length positions \<le> i \<Longrightarrow> area_loop positions i area = area"
  by (subst area_loop.simps) simp

lemma area_loop_groups:
  assumes "length positions = 9 * n" and "j \<le> n"
  shows "area_loop positions (9 * j) area =
         area + (\<Sum>k = j..<n. spec_triangle_area (point_at positions (9 * k))
                     (point_at positions (9 * k + 3)) (point_at positions (9 * k + 6)))"
  using assms(2)
proof (induction "n - j" arbitrary: j area)
  case 0
  then have "j = n" by simp
  then show ?case using assms(1) by (simp add: area_loop_done)
next
  case (Suc d)
  then have lt: "j < n" and d: "d = n - Suc j" and le: "Suc j \<le> n" by simp_all
  have fits: "9 * j + 9 \<le> length positions" using lt assms(1) by simp
  have "area_loop positions (9 * j) area =
        area_loop positions (9 * Suc j)
          (area + spec_triangle_area (point_at positions (9 * j))
                    (point_at positions (9 * j + 3)) (point_at positions (9 * j + 6)))"
    using area_loop_step [OF fits, of area] by (simp add: add.commute)
  also have "\<dots> = area + spec_triangle_area (point_at positions (9 * j))
                    (point_at positions (9 * j + 3)) (point_at positions (9 * j + 6)) +
                  (\<Sum>k = Suc j..<n. spec_triangle_area (point_at positions (9 * k))
                     (point_at positions (9 * k + 3)) (point_at positions (9 * k + 6)))"
    using Suc.hyps(1) [OF d le] .
  finally show ?case using lt by (simp add: sum.atLeast_Suc_lessThan)
qed

lemma area_loop_single:
  "area_loop (encode_triangle a b c) 0 0 = spec_triangle_area a b c"
proof -
  have "area_loop (encode_triangle a b c) 0 0 =
        area_loop (encode_triangle a b c) (0 + 9)
          (0 + spec_triangle_area (point_at (encode_triangle a b c) 0)
                 (point_at (encode_triangle a b c) (0 + 3))
                 (point_at (encode_triangle a b c) (0 + 6)))"
    by (rule area_loop_step) (simp add: encode_triangle_def)
  also have "\<dots> = spec_triangle_area (point_at (encode_triangle a b c) 0)
                 (point_at (encode_triangle a b c) 3) (point_at (encode_triangle a b c) 6)"
    by (simp add: area_loop_done encode_triangle_def)
  also have "\<dots> = spec_triangle_area a b c"
    by (simp add: point_at_def encode_triangle_def)
  finally show ?thesis .
qed

lemma right_triangle_area:
  assumes "right_triangle L a b c"
  shows "spec_triangle_area a b c = L\<^sup>2 / 2"
proof -
  consider "right_angle_at L a b c" | "right_angle_at L b c a" | "right_angle_at L c a b"
    using assms by (auto simp: right_triangle_def)
  then have "length_v (cross (subVectors b a) (subVectors c a)) = L\<^sup>2"
  proof cases
    case 1
    then show ?thesis by (simp add: right_angle_at_def cross_right_angle)
  next
    case 2
    then have "length_v (cross (subVectors c b) (subVectors a b)) = L\<^sup>2"
      by (simp add: right_angle_at_def cross_right_angle)
    then show ?thesis by (simp only: cross_shift_b [of c b a])
  next
    case 3
    then have "length_v (cross (subVectors a c) (subVectors b c)) = L\<^sup>2"
      by (simp add: right_angle_at_def cross_right_angle)
    then show ?thesis by (simp only: cross_shift_c [of a c b])
  qed
  then show ?thesis by (simp add: spec_triangle_area_def)
qed

text \<open>
  Claim C1. For every position buffer whose length is a multiple of 9,
  \<open>calculateSurfaceArea\<close> returns the sum, over the consecutive groups of nine values read
  as three points \<open>(v1, v2, v3)\<close>, of 0.5 times the magnitude of
  \<open>(v2 - v1) \<times> (v3 - v1)\<close>. It returns 0 for the empty buffer, and \<open>L\<^sup>2 / 2\<close> for a
  buffer that encodes one right triangle with legs of length \<open>L\<close>.
\<close>

theorem calculateSurfaceArea_sum:
  "(length positions mod 9 = 0 \<longrightarrow>
      calculateSurfaceArea \<lparr>position = Some positions\<rparr> =
      Inr (\<Sum>k<length positions div 9.
             spec_triangle_area (point_at positions (9 * k)) (point_at positions (9 * k + 3))
               (point_at positions (9 * k + 6)))) \<and>
   calculateSurfaceArea \<lparr>position = Some []\<rparr> = Inr 0 \<and>
   (right_triangle L a b c \<longrightarrow>
      calculateSurfaceArea \<lparr>position = Some (encode_triangle a b c)\<rparr> = Inr (L\<^sup>2 / 2))"
proof (intro conjI impI)
  assume "length positions mod 9 = 0"
  then have len: "length positions = 9 * (length positions div 9)" by presburger
  show "calculateSurfaceArea \<lparr>position = Some positions\<rparr> =
      Inr (\<Sum>k<length positions div 9.
             spec_triangle_area (point_at positions (9 * k)) (point_at positions (9 * k + 3))
               (point_at positions (9 * k + 6)))"
    using area_loop_groups [OF len, of 0 0]
    by (simp add: calculateSurfaceArea_def lessThan_atLeast0)
next
  show "calculateSurfaceArea \<lparr>position = Some []\<rparr> = Inr 0"
    by (simp add: calculateSurfaceArea_def area_loop_done)
next
  assume "right_triangle L a b c"
  then show "calculateSurfaceArea \<lparr>position = Some (encode_triangle a b c)\<rparr> = Inr (L\<^sup>2 / 2)"
    by (simp add: calculateSurfaceArea_def area_loop_single right_triangle_area)
qed

theorem calculateSurfaceArea_sum_witness:
  "length (encode_triangle (Vector3 0 0 0) (Vector3 2 0 0) (Vector3 0 2 0)) mod 9 = 0 \<and>
   right_triangle 2 (Vector3 0 0 0) (Vector3 2 0 0) (Vector3 0 2 0) \<and>
   calculateSurfaceArea
     \<lparr>position = Some (encode_triangle (Vector3 0 0 0) (Vector3 2 0 0) (Vector3 0 2 0))\<rparr> = Inr 2"
proof -
  have r: "right_triangle 2 (Vector3 0 0 0) (Vector3 2 0 0) (Vector3 0 2 0)"
    by (simp add: right_triangle_def right_angle_at_def dot_def subVectors_def length_v_def)
  have l: "length (encode_triangle (Vector3 0 0 0) (Vector3 2 0 0) (Vector3 0 2 0)) mod 9 = 0"
    by (simp add: encode_triangle_def)
  have "calculateSurfaceArea
     \<lparr>position = Some (encode_triangle (Vector3 0 0 0) (Vector3 2 0 0) (Vector3 0 2 0))\<rparr> =
     Inr (2\<^sup>2 / 2)"
    using r
      calculateSurfaceArea_sum
        [of "encode_triangle (Vector3 0 0 0) (Vector3 2 0 0) (Vector3 0 2 0)"
          2 "Vector3 0 0 0" "Vector3 2 0 0" "Vector3 0 2 0"]
    by blast
  then show ?thesis using r l by simp
qed

subsection \<open>Buffers with a trailing partial group\<close>

lemma read_default_pad9:
  "(case read_at (pad9 positions) k of None \<Rightarrow> 0 | Some v \<Rightarrow> v) =
   (case read_at positions k of None \<Rightarrow> 0 | Some v \<Rightarrow> v)"
  by (simp add: read_at_def pad9_def nth_append)

lemma new_Vector3_pad9:
  "new_Vector3 (read_at (pad9 positions) i) (read_at (pad9 positions) j) (read_at (pad9 positions) k) =
   new_Vector3 (read_at positions i) (read_at positions j) (read_at positions k)"
  by (simp add: new_Vector3_def read_default_pad9)

lemma length_pad9: "length (pad9 positions) = length positions + (9 - length positions mod 9) mod 9"
  by (simp add: pad9_def)

lemma pad_arith:
  fixes n :: nat
  assumes "9 dvd i"
  shows "i < n + (9 - n mod 9) mod 9 \<longleftrightarrow> i < n"
proof -
  obtain q where i: "i = 9 * q" using assms by (auto simp: dvd_def)
  define d where "d = n div 9"
  define r where "r = n mod 9"
  have n: "n = 9 * d + r" and r: "r < 9" by (simp_all add: d_def r_def)
  show ?thesis
  proof (cases "r = 0")
    case True
    then show ?thesis by (simp add: r_def)
  next
    case False
    then have m: "(9 - r) mod 9 = 9 - r" using r by simp
    have "i < n + (9 - r) \<longleftrightarrow> q \<le> d" using n r i by auto
    moreover have "i < n \<longleftrightarrow> q \<le> d" using n r i False by auto
    ultimately show ?thesis unfolding r_def [symmetric] m by simp
  qed
qed

lemma pad9_bound: "9 dvd i \<Longrightarrow> i < length (pad9 positions) \<longleftrightarrow> i < length positions"
  unfolding length_pad9 by (rule pad_arith)

lemma whole_fits:
  fixes n :: nat
  assumes "9 dvd i" and "i + 9 \<le> n"
  shows "i + 9 \<le> 9 * (n div 9)"
proof -
  obtain q where i: "i = 9 * q" using assms by (auto simp: dvd_def)
  have "9 * (q + 1) \<le> n" using assms(2) i by simp
  then have "q + 1 \<le> n div 9" by (simp add: less_eq_div_iff_mult_less_eq mult.commute)
  then show ?thesis using i by simp
qed

lemma part_short:
  fixes n :: nat
  assumes "9 dvd i" and "i < n" and "n < i + 9" and "n mod 9 \<le> 3"
  shows "n \<le> i + 3 \<and> 9 * (n div 9) \<le> i"
proof -
  obtain q where i: "i = 9 * q" using assms by (auto simp: dvd_def)
  have "n div 9 = q" using assms(2,3) i by (simp add: div_nat_eqI mult.commute)
  then have "n = i + n mod 9" using i by (metis mult_div_mod_eq)
  then show ?thesis using assms(4) \<open>n div 9 = q\<close> i by simp
qed
lemma area_loop_pad9: "9 dvd i \<Longrightarrow> area_loop (pad9 positions) i area = area_loop positions i area"
proof (induction positions i area rule: area_loop.induct)
  case (1 positions i area)
  show ?case
  proof (cases "i < length positions")
    case True
    have nine: "9 dvd i + 9" using "1.prems" by simp
    have "area_loop (pad9 positions) i area =
          area_loop (pad9 positions) (i + 9)
            (area + getArea
               (new_Vector3 (read_at positions i) (read_at positions (i + 1)) (read_at positions (i + 2)))
               (new_Vector3 (read_at positions (i + 3)) (read_at positions (i + 4)) (read_at positions (i + 5)))
               (new_Vector3 (read_at positions (i + 6)) (read_at positions (i + 7)) (read_at positions (i + 8))))"
      using True "1.prems" by (subst area_loop.simps) (simp add: pad9_bound new_Vector3_pad9)
    also have "\<dots> = area_loop positions (i + 9)
            (area + getArea
               (new_Vector3 (read_at positions i) (read_at positions (i + 1)) (read_at positions (i + 2)))
               (new_Vector3 (read_at positions (i + 3)) (read_at positions (i + 4)) (read_at positions (i + 5)))
               (new_Vector3 (read_at positions (i + 6)) (read_at positions (i + 7)) (read_at positions (i + 8))))"
      using "1.IH" [OF True refl refl refl nine] .
    also have "\<dots> = area_loop positions i area"
      using True by (subst (2) area_loop.simps) simp
    finally show ?thesis .
  next
    case False
    then have "\<not> i < length (pad9 positions)" using "1.prems" by (simp add: pad9_bound)
    then show ?thesis using False by (simp add: area_loop_done)
  qed
qed

lemma getArea_lone_point: "getArea v (Vector3 0 0 0) (Vector3 0 0 0) = 0"
  by (simp add: getArea_def cross_def subVectors_def length_v_def)

lemma read_at_truncate9:
  "k < 9 * (length positions div 9) \<Longrightarrow> read_at (truncate9 positions) k = read_at positions k"
  by (simp add: read_at_def truncate9_def)

lemma length_truncate9: "length (truncate9 positions) = 9 * (length positions div 9)"
  by (simp add: truncate9_def)

lemma area_loop_truncate9:
  "length positions mod 9 \<le> 3 \<Longrightarrow> 9 dvd i \<Longrightarrow>
   area_loop (truncate9 positions) i area = area_loop positions i area"
proof (induction positions i area rule: area_loop.induct)
  case (1 positions i area)
  consider (whole) "i + 9 \<le> length positions"
    | (part) "i < length positions" "length positions < i + 9"
    | (out) "length positions \<le> i" by linarith
  then show ?case
  proof cases
    case whole
    have nine: "9 dvd i + 9" using "1.prems" by simp
    have lt: "i < length positions" using whole by simp
    have fits: "i + 9 \<le> 9 * (length positions div 9)"
      using "1.prems"(2) whole by (rule whole_fits)
    have "area_loop (truncate9 positions) i area =
          area_loop (truncate9 positions) (i + 9)
            (area + getArea
               (new_Vector3 (read_at positions i) (read_at positions (i + 1)) (read_at positions (i + 2)))
               (new_Vector3 (read_at positions (i + 3)) (read_at positions (i + 4)) (read_at positions (i + 5)))
               (new_Vector3 (read_at positions (i + 6)) (read_at positions (i + 7)) (read_at positions (i + 8))))"
      using fits by (subst area_loop.simps) (simp add: length_truncate9 read_at_truncate9)
    also have "\<dots> = area_loop positions (i + 9)
            (area + getArea
               (new_Vector3 (read_at positions i) (read_at positions (i + 1)) (read_at positions (i + 2)))
               (new_Vector3 (read_at positions (i + 3)) (read_at positions (i + 4)) (read_at positions (i + 5)))
               (new_Vector3 (read_at positions (i + 6)) (read_at positions (i + 7)) (read_at positions (i + 8))))"
      using "1.IH" [OF lt refl refl refl "1.prems"(1) nine] .
    also have "\<dots> = area_loop positions i area"
      using lt by (subst (2) area_loop.simps) simp
    finally show ?thesis .
  next
    case part
    have both: "length positions \<le> i + 3 \<and> 9 * (length positions div 9) \<le> i"
      using "1.prems"(2) part "1.prems"(1) by (rule part_short)
    then have short: "length positions \<le> i + 3" and cut: "length (truncate9 positions) \<le> i"
      by (simp_all add: length_truncate9)
    have "area_loop positions i area = area_loop positions (i + 9) (area + 0)"
      using part(1) short
      by (subst area_loop.simps) (simp add: read_at_out new_Vector3_def getArea_lone_point)
    also have "\<dots> = area" using part(2) by (simp add: area_loop_done)
    finally show ?thesis using cut by (simp add: area_loop_done)
  next
    case out
    then have "length (truncate9 positions) \<le> i" by (simp add: length_truncate9)
    then show ?thesis using out by (simp add: area_loop_done)
  qed
qed

lemma area_short: "area_loop [1, 0, 0, 0, 1] 0 0 = 1 / 2"
  apply (subst area_loop.simps)
  apply (simp add: read_at_def new_Vector3_def getArea_def cross_def subVectors_def length_v_def)
  apply (subst area_loop.simps)
  apply simp
  done

text \<open>
  Claim C3, as stated, fails: of the five values \<open>1, 0, 0, 0, 1\<close> none forms a whole group,
  and the calculator returns 1/2, not the area 0 of the buffer cut to whole groups.
\<close>

theorem trailing_group_counterexample:
  "length [1, 0, 0, 0, 1 :: real] mod 9 \<noteq> 0 \<and>
   calculateSurfaceArea \<lparr>position = Some [1, 0, 0, 0, 1]\<rparr> = Inr (1 / 2) \<and>
   calculateSurfaceArea \<lparr>position = Some (truncate9 [1, 0, 0, 0, 1])\<rparr> = Inr 0"
  by (simp add: calculateSurfaceArea_def truncate9_def area_short area_loop_done)

text \<open>
  Claim C3, amended. For a buffer of any length the calculator raises no error and reads a
  trailing partial group as one more triangle, whose missing coordinates are 0: it returns
  the area of the buffer filled up with zeros to the next multiple of 9. Where the trailing
  group holds at most three values, this is the area of the buffer cut to whole groups.
\<close>

theorem trailing_group_padded:
  "calculateSurfaceArea \<lparr>position = Some positions\<rparr> = Inr (area_loop (pad9 positions) 0 0) \<and>
   calculateSurfaceArea \<lparr>position = Some positions\<rparr> =
     calculateSurfaceArea \<lparr>position = Some (pad9 positions)\<rparr> \<and>
   (length positions mod 9 \<le> 3 \<longrightarrow>
      calculateSurfaceArea \<lparr>position = Some positions\<rparr> =
      calculateSurfaceArea \<lparr>position = Some (truncate9 positions)\<rparr>)"
  by (simp add: calculateSurfaceArea_def area_loop_pad9 area_loop_truncate9)

theorem trailing_group_padded_witness:
  "length [1, 0, 0, 0, 0, 0, 0, 0, 0, 5, 5, 5 :: real] mod 9 \<le> 3 \<and>
   calculateSurfaceArea \<lparr>position = Some [1, 0, 0, 0, 0, 0, 0, 0, 0, 5, 5, 5]\<rparr> =
   calculateSurfaceArea \<lparr>position = Some [1, 0, 0, 0, 0, 0, 0, 0, 0]\<rparr>"
proof -
  have short: "length [1, 0, 0, 0, 0, 0, 0, 0, 0, 5, 5, 5 :: real] mod 9 \<le> 3" by simp
  have "calculateSurfaceArea \<lparr>position = Some [1, 0, 0, 0, 0, 0, 0, 0, 0, 5, 5, 5]\<rparr> =
        calculateSurfaceArea
          \<lparr>position = Some (truncate9 [1, 0, 0, 0, 0, 0, 0, 0, 0, 5, 5, 5])\<rparr>"
    using short trailing_group_padded [of "[1, 0, 0, 0, 0, 0, 0, 0, 0, 5, 5, 5]"] by blast
  then show ?thesis by (simp add: truncate9_def)
qed


section \<open>Properties of the irradiance estimator\<close>

lemma visit_skip:
  "\<not> mesh_with_position child \<Longrightarrow> visit ghi sun child t = Inr (child, t)"
  by (auto simp: visit_def mesh_with_position_def split: option.splits)

lemma visit_mesh:
  assumes "isMesh child" and "geometry child = Some g" and "position g = Some positions"
  shows "\<exists>child'. visit ghi sun child t =
           Inr (child', jadd t (jmul (jmul (jmul ghi (Num (area_loop positions 0 0)))
                                  (Num (incidence (matrixWorld child) sun))) (Num 0.15)))"
  using assms by (simp add: visit_def calculateSurfaceArea_def Let_def split: option.splits)

lemma visit_total: "\<exists>r. visit ghi sun child t = Inr r"
proof (cases "mesh_with_position child")
  case True
  then obtain g positions where "isMesh child" "geometry child = Some g" "position g = Some positions"
    by (auto simp: mesh_with_position_def split: option.splits)
  from visit_mesh [OF this] show ?thesis by blast
next
  case False
  then show ?thesis by (simp add: visit_skip)
qed

lemma traverse_total:
  "\<exists>r. traverse (visit ghi sun) model t = Inr r"
  "\<exists>r. traverse_children (visit ghi sun) cs t = Inr r"
proof (induction "visit ghi sun" model t and "visit ghi sun" cs t
       rule: traverse_traverse_children.induct)
  case (1 obj cs s)
  obtain obj' s' where v: "visit ghi sun obj s = Inr (obj', s')"
    using visit_total [of ghi sun obj s] by auto
  from "1" [OF v refl] obtain r where "traverse_children (visit ghi sun) cs s' = Inr r" by blast
  then show ?case using v by (cases r) simp
next
  case (2 s)
  then show ?case by simp
next
  case (3 c cs s)
  from "3"(1) obtain c' s' where t: "traverse (visit ghi sun) c s = Inr (c', s')" by auto
  from "3"(2) [OF t refl] obtain r where "traverse_children (visit ghi sun) cs s' = Inr r" by blast
  then show ?case using t by (cases r) simp
qed

lemma traverse_skip:
  "(\<forall>obj\<in>set (objects model). \<not> mesh_with_position obj) \<Longrightarrow>
     traverse (visit ghi sun) model t = Inr (model, t)"
  "(\<forall>obj\<in>set (objects_list cs). \<not> mesh_with_position obj) \<Longrightarrow>
     traverse_children (visit ghi sun) cs t = Inr (cs, t)"
  by (induction model and cs arbitrary: t and t rule: objects_objects_list.induct)
     (simp_all add: visit_skip)









text \<open>
  Claim C5. A mesh that lacks a position attribute is skipped without error and leaves the
  total as it is, alone and in a whole scene; the traversal never raises an error; and for
  a scene without meshes the total is exactly 0.
\<close>

theorem meshes_without_position_skipped:
  "(isMesh child \<and> \<not> mesh_with_position child \<longrightarrow>
      visit ghi sun child t = Inr (child, t)) \<and>
   ((\<forall>obj\<in>set (objects model). \<not> mesh_with_position obj) \<longrightarrow>
      traverse (visit ghi sun) model t = Inr (model, t)) \<and>
   ((\<forall>obj\<in>set (objects model). \<not> isMesh obj) \<longrightarrow>
      scene_total ghi sun model = Inr (Num 0)) \<and>
   (\<exists>total. scene_total ghi sun model = Inr total)"
proof (intro conjI impI)
  assume "isMesh child \<and> \<not> mesh_with_position child"
  then show "visit ghi sun child t = Inr (child, t)" by (simp add: visit_skip)
next
  assume "\<forall>obj\<in>set (objects model). \<not> mesh_with_position obj"
  then show "traverse (visit ghi sun) model t = Inr (model, t)" by (rule traverse_skip)
next
  assume "\<forall>obj\<in>set (objects model). \<not> isMesh obj"
  then have "\<forall>obj\<in>set (objects model). \<not> mesh_with_position obj"
    by (simp add: mesh_with_position_def)
  then have "traverse (visit ghi sun) model (Num 0) = Inr (model, Num 0)" by (rule traverse_skip)
  then show "scene_total ghi sun model = Inr (Num 0)" by (simp add: scene_total_def)
next
  obtain r where "traverse (visit ghi sun) model (Num 0) = Inr r"
    using traverse_total(1) by blast
  then show "\<exists>total. scene_total ghi sun model = Inr total"
    by (cases r) (simp add: scene_total_def)
qed

theorem meshes_without_position_skipped_witness:
  "isMesh \<lparr>isMesh = True, geometry = Some \<lparr>position = None\<rparr>,
            matrixWorld = Matrix4 1 0 0 0 0 1 0 0 0 0 1 0 0 0 0 1, material = None\<rparr> \<and>
   \<not> mesh_with_position
        \<lparr>isMesh = True, geometry = Some \<lparr>position = None\<rparr>,
         matrixWorld = Matrix4 1 0 0 0 0 1 0 0 0 0 1 0 0 0 0 1, material = None\<rparr> \<and>
   visit (Num 5.0) (Vector3 100 500 100)
     \<lparr>isMesh = True, geometry = Some \<lparr>position = None\<rparr>,
      matrixWorld = Matrix4 1 0 0 0 0 1 0 0 0 0 1 0 0 0 0 1, material = None\<rparr> (Num 3) =
   Inr (\<lparr>isMesh = True, geometry = Some \<lparr>position = None\<rparr>,
         matrixWorld = Matrix4 1 0 0 0 0 1 0 0 0 0 1 0 0 0 0 1, material = None\<rparr>, Num 3) \<and>
   objects (Object3D
        \<lparr>isMesh = False, geometry = None,
         matrixWorld = Matrix4 1 0 0 0 0 1 0 0 0 0 1 0 0 0 0 1, material = None\<rparr>
        [Object3D \<lparr>isMesh = True, geometry = Some \<lparr>position = None\<rparr>,
            matrixWorld = Matrix4 1 0 0 0 0 1 0 0 0 0 1 0 0 0 0 1, material = None\<rparr> []]) =
     [\<lparr>isMesh = False, geometry = None,
         matrixWorld = Matrix4 1 0 0 0 0 1 0 0 0 0 1 0 0 0 0 1, material = None\<rparr>,
      \<lparr>isMesh = True, geometry = Some \<lparr>position = None\<rparr>,
            matrixWorld = Matrix4 1 0 0 0 0 1 0 0 0 0 1 0 0 0 0 1, material = None\<rparr>] \<and>
   \<not> mesh_with_position
        \<lparr>isMesh = False, geometry = None,
         matrixWorld = Matrix4 1 0 0 0 0 1 0 0 0 0 1 0 0 0 0 1, material = None\<rparr> \<and>
   traverse (visit (Num 5.0) (Vector3 100 500 100))
     (Object3D
        \<lparr>isMesh = False, geometry = None,
         matrixWorld = Matrix4 1 0 0 0 0 1 0 0 0 0 1 0 0 0 0 1, material = None\<rparr>
        [Object3D \<lparr>isMesh = True, geometry = Some \<lparr>position = None\<rparr>,
            matrixWorld = Matrix4 1 0 0 0 0 1 0 0 0 0 1 0 0 0 0 1, material = None\<rparr> []])
     (Num 3) =
   Inr (Object3D
        \<lparr>isMesh = False, geometry = None,
         matrixWorld = Matrix4 1 0 0 0 0 1 0 0 0 0 1 0 0 0 0 1, material = None\<rparr>
        [Object3D \<lparr>isMesh = True, geometry = Some \<lparr>position = None\<rparr>,
            matrixWorld = Matrix4 1 0 0 0 0 1 0 0 0 0 1 0 0 0 0 1, material = None\<rparr> []],
        Num 3) \<and>
   objects (Object3D
        \<lparr>isMesh = False, geometry = None,
         matrixWorld = Matrix4 1 0 0 0 0 1 0 0 0 0 1 0 0 0 0 1, material = None\<rparr> []) =
     [\<lparr>isMesh = False, geometry = None,
         matrixWorld = Matrix4 1 0 0 0 0 1 0 0 0 0 1 0 0 0 0 1, material = None\<rparr>] \<and>
   \<not> isMesh \<lparr>isMesh = False, geometry = None,
         matrixWorld = Matrix4 1 0 0 0 0 1 0 0 0 0 1 0 0 0 0 1, material = None\<rparr> \<and>
   scene_total (Num 5.0) (Vector3 100 500 100)
     (Object3D \<lparr>isMesh = False, geometry = None,
         matrixWorld = Matrix4 1 0 0 0 0 1 0 0 0 0 1 0 0 0 0 1, material = None\<rparr> []) =
   Inr (Num 0)"
proof -
  let ?mesh = "\<lparr>isMesh = True, geometry = Some \<lparr>position = None\<rparr>,
            matrixWorld = Matrix4 1 0 0 0 0 1 0 0 0 0 1 0 0 0 0 1, material = None\<rparr>"
  let ?group = "\<lparr>isMesh = False, geometry = None,
         matrixWorld = Matrix4 1 0 0 0 0 1 0 0 0 0 1 0 0 0 0 1, material = None\<rparr>"
  let ?scene = "Object3D ?group []"
  let ?scene2 = "Object3D ?group [Object3D ?mesh []]"
  let ?sun = "Vector3 100 500 100"
  have m: "isMesh ?mesh \<and> \<not> mesh_with_position ?mesh"
    by (simp add: mesh_with_position_def)
  have g: "\<not> mesh_with_position ?group \<and> \<not> isMesh ?group"
    by (simp add: mesh_with_position_def)
  have o: "objects ?scene = [?group]" by simp
  have o2: "objects ?scene2 = [?group, ?mesh]" by simp
  have s: "\<forall>obj\<in>set (objects ?scene). \<not> isMesh obj" by simp
  have s2: "\<forall>obj\<in>set (objects ?scene2). \<not> mesh_with_position obj"
    using m g by simp
  have 1: "visit (Num 5.0) ?sun ?mesh (Num 3) = Inr (?mesh, Num 3)"
    using m meshes_without_position_skipped [of ?mesh "Num 5.0" ?sun "Num 3" ?scene]
    by blast
  have 2: "traverse (visit (Num 5.0) ?sun) ?scene2 (Num 3) = Inr (?scene2, Num 3)"
    using s2 meshes_without_position_skipped [of ?mesh "Num 5.0" ?sun "Num 3" ?scene2]
    by blast
  have 3: "scene_total (Num 5.0) ?sun ?scene = Inr (Num 0)"
    using s meshes_without_position_skipped [of ?mesh "Num 5.0" ?sun "Num 3" ?scene]
    by blast
  show ?thesis using m g o o2 1 2 3 by blast
qed

subsection \<open>The GHI value\<close>

lemma or_num_default: "a = NaN \<or> a = Num 0 \<Longrightarrow> or_num a b = b"
  by (auto simp: or_num_def truthy_num_def)

lemma or_num_truthy: "or_num a (Num 5.0) \<noteq> NaN \<and> or_num a (Num 5.0) \<noteq> Num 0"
  by (simp add: or_num_def truthy_num_def)

lemma parseFloat_null: "parseFloat ''null'' = NaN"
  by (simp add: parseFloat_def parse_unsigned_def is_white_def is_digit_def)

lemma calculateBIPVPotential_runs:
  assumes "cityModel v = Some model"
  shows "\<exists>model' total.
           traverse (visit (ghi_of_params (params v)) (sunLight_position v)) model (Num 0) =
             Inr (model', total) \<and>
           calculateBIPVPotential v =
             Inr (updateOverlay (v\<lparr>cityModel := Some model'\<rparr>)
                    (Summary (ghi_of_params (params v)) total))"
proof -
  obtain r where
    "traverse (visit (ghi_of_params (params v)) (sunLight_position v)) model (Num 0) = Inr r"
    using traverse_total(1) by blast
  then show ?thesis
    using assms by (cases r) (simp add: calculateBIPVPotential_def)
qed

text \<open>
  Claim C4. If the \<open>ghi\<close> query parameter is absent, or its value does not parse as a float,
  the estimator uses 5.0 as the GHI value and raises no error: \<open>calculateBIPVPotential\<close>
  returns, and where a model is loaded it traverses the model with GHI 5.0 and shows that
  value and the total the traversal gives.
\<close>

theorem ghi_default_substituted:
  "(params_get (params v) ''ghi'' = None \<or>
    (\<exists>s. params_get (params v) ''ghi'' = Some s \<and> parseFloat s = NaN)) \<longrightarrow>
   ghi_of_params (params v) = Num 5.0 \<and>
   (\<exists>r. calculateBIPVPotential v = Inr r) \<and>
   (\<forall>model. cityModel v = Some model \<longrightarrow>
      (\<exists>model' total.
         traverse (visit (Num 5.0) (sunLight_position v)) model (Num 0) = Inr (model', total) \<and>
         calculateBIPVPotential v =
           Inr (updateOverlay (v\<lparr>cityModel := Some model'\<rparr>) (Summary (Num 5.0) total))))"
proof
  assume h: "params_get (params v) ''ghi'' = None \<or>
    (\<exists>s. params_get (params v) ''ghi'' = Some s \<and> parseFloat s = NaN)"
  then have "parseFloat (to_string (params_get (params v) ''ghi'')) = NaN"
    by (auto simp: to_string_def parseFloat_null)
  then have g: "ghi_of_params (params v) = Num 5.0"
    by (simp add: ghi_of_params_def or_num_default)
  have r: "\<exists>r. calculateBIPVPotential v = Inr r"
  proof (cases "cityModel v")
    case None
    then show ?thesis by (simp add: calculateBIPVPotential_def)
  next
    case (Some model)
    from calculateBIPVPotential_runs [OF this] show ?thesis by blast
  qed
  have m: "\<exists>model' total.
         traverse (visit (Num 5.0) (sunLight_position v)) model (Num 0) = Inr (model', total) \<and>
         calculateBIPVPotential v =
           Inr (updateOverlay (v\<lparr>cityModel := Some model'\<rparr>) (Summary (Num 5.0) total))"
    if "cityModel v = Some model" for model
    using calculateBIPVPotential_runs [OF that] g by simp
  show "ghi_of_params (params v) = Num 5.0 \<and>
   (\<exists>r. calculateBIPVPotential v = Inr r) \<and>
   (\<forall>model. cityModel v = Some model \<longrightarrow>
      (\<exists>model' total.
         traverse (visit (Num 5.0) (sunLight_position v)) model (Num 0) = Inr (model', total) \<and>
         calculateBIPVPotential v =
           Inr (updateOverlay (v\<lparr>cityModel := Some model'\<rparr>) (Summary (Num 5.0) total))))"
    using g r m by blast
qed

theorem ghi_default_substituted_witness:
  "params_get [(''model'', ''1730000000000.gltf'')] ''ghi'' = None \<and>
   ghi_of_params [(''model'', ''1730000000000.gltf'')] = Num 5.0 \<and>
   params_get [(''ghi'', ''abc'')] ''ghi'' = Some ''abc'' \<and> parseFloat ''abc'' = NaN \<and>
   ghi_of_params [(''ghi'', ''abc'')] = Num 5.0"
proof -
  let ?v = "\<lparr>params = [(''model'', ''1730000000000.gltf'')], cityModel = None,
             sunLight_position = Vector3 100 500 100, overlay_exists = True,
             overlay_innerHTML = None\<rparr>"
  let ?w = "\<lparr>params = [(''ghi'', ''abc'')], cityModel = None,
             sunLight_position = Vector3 100 500 100, overlay_exists = True,
             overlay_innerHTML = None\<rparr>"
  have a: "params_get (params ?v) ''ghi'' = None" by (simp add: params_get_def)
  have b: "params_get (params ?w) ''ghi'' = Some ''abc''" by (simp add: params_get_def)
  have c: "parseFloat ''abc'' = NaN"
    by (simp add: parseFloat_def parse_unsigned_def is_white_def is_digit_def)
  have "ghi_of_params (params ?v) = Num 5.0"
    using a ghi_default_substituted [of ?v] by blast
  moreover have "ghi_of_params (params ?w) = Num 5.0"
    using b c ghi_default_substituted [of ?w] by blast
  ultimately show ?thesis using a b c by simp
qed

text \<open>
  Claim C9. For every \<open>ghi\<close> string whose float parse is 0 the estimator substitutes 5.0 as
  well; the GHI value it uses is never 0 and never \<open>NaN\<close>.
\<close>

theorem ghi_zero_substituted:
  "(\<forall>s. params_get ps ''ghi'' = Some s \<and> parseFloat s = Num 0 \<longrightarrow>
        ghi_of_params ps = Num 5.0) \<and>
   ghi_of_params ps \<noteq> Num 0 \<and> ghi_of_params ps \<noteq> NaN"
proof (intro conjI allI impI)
  fix s
  assume "params_get ps ''ghi'' = Some s \<and> parseFloat s = Num 0"
  then have "parseFloat (to_string (params_get ps ''ghi'')) = Num 0"
    by (simp add: to_string_def)
  then show "ghi_of_params ps = Num 5.0"
    by (simp add: ghi_of_params_def or_num_default)
next
  show "ghi_of_params ps \<noteq> Num 0"
    using or_num_truthy by (simp add: ghi_of_params_def)
next
  show "ghi_of_params ps \<noteq> NaN"
    using or_num_truthy by (simp add: ghi_of_params_def)
qed

lemma parseFloat_zero: "parseFloat ''0'' = Num 0"
  by (simp add: parseFloat_def parse_unsigned_def is_white_def is_digit_def
      digits_val_def digit_val_def number_value_def)

lemma parseFloat_zero_point: "parseFloat ''0.0'' = Num 0"
  by (simp add: parseFloat_def parse_unsigned_def is_white_def is_digit_def
      digits_val_def digit_val_def scale10_def parse_exponent_def number_value_def)

lemma parseFloat_underflow: "parseFloat ''1e-400'' = Num 0"
  by (simp add: parseFloat_def parse_unsigned_def is_white_def is_digit_def
      digits_val_def digit_val_def scale10_def parse_exponent_def number_value_def)


theorem ghi_zero_substituted_witness:
  "params_get [(''ghi'', ''0'')] ''ghi'' = Some ''0'' \<and> parseFloat ''0'' = Num 0 \<and>
   ghi_of_params [(''ghi'', ''0'')] = Num 5.0 \<and>
   params_get [(''ghi'', ''0.0'')] ''ghi'' = Some ''0.0'' \<and> parseFloat ''0.0'' = Num 0 \<and>
   ghi_of_params [(''ghi'', ''0.0'')] = Num 5.0 \<and>
   params_get [(''ghi'', ''1e-400'')] ''ghi'' = Some ''1e-400'' \<and>
   parseFloat ''1e-400'' = Num 0 \<and>
   ghi_of_params [(''ghi'', ''1e-400'')] = Num 5.0"
proof -
  have a: "params_get [(''ghi'', ''0'')] ''ghi'' = Some ''0'' \<and> parseFloat ''0'' = Num 0"
    by (simp add: params_get_def parseFloat_zero)
  have b: "params_get [(''ghi'', ''0.0'')] ''ghi'' = Some ''0.0'' \<and> parseFloat ''0.0'' = Num 0"
    by (simp add: params_get_def parseFloat_zero_point)
  have c: "params_get [(''ghi'', ''1e-400'')] ''ghi'' = Some ''1e-400'' \<and>
           parseFloat ''1e-400'' = Num 0"
    by (simp add: params_get_def parseFloat_underflow)
  have "ghi_of_params [(''ghi'', ''0'')] = Num 5.0"
    using a ghi_zero_substituted [of "[(''ghi'', ''0'')]"] by blast
  moreover have "ghi_of_params [(''ghi'', ''0.0'')] = Num 5.0"
    using b ghi_zero_substituted [of "[(''ghi'', ''0.0'')]"] by blast
  moreover have "ghi_of_params [(''ghi'', ''1e-400'')] = Num 5.0"
    using c ghi_zero_substituted [of "[(''ghi'', ''1e-400'')]"] by blast
  ultimately show ?thesis using a b c by simp
qed

subsection \<open>The total of a scene\<close>














section \<open>Properties of the upload form\<close>

lemma fetchGHI_returns: "\<exists>evs v. fetchGHI lat lon date outcome = (evs, Inr v)"
  by (cases "fetchGHI_try date outcome" rule: prod.exhaust)
     (auto simp: fetchGHI_def split: sum.splits)



















subsection \<open>The submit handler\<close>

lemma precedes_iff:
  "precedes P Q tr \<longleftrightarrow> (\<forall>pre e post. tr = pre @ e # post \<and> Q e \<longrightarrow> (\<exists>p\<in>set pre. P p))"
proof (induction tr)
  case Nil
  then show ?case by simp
next
  case (Cons e0 es)
  show ?case
  proof
    assume l: "precedes P Q (e0 # es)"
    show "\<forall>pre e post. e0 # es = pre @ e # post \<and> Q e \<longrightarrow> (\<exists>p\<in>set pre. P p)"
    proof (intro allI impI)
      fix pre e post
      assume a: "e0 # es = pre @ e # post \<and> Q e"
      from l have nq: "\<not> Q e0" by simp
      with a obtain pre' where pre: "pre = e0 # pre'" and es: "es = pre' @ e # post"
        by (cases pre) auto
      show "\<exists>p\<in>set pre. P p"
      proof (cases "P e0")
        case True
        then show ?thesis using pre by simp
      next
        case False
        with l have "precedes P Q es" by simp
        with Cons.IH es a have "\<exists>p\<in>set pre'. P p" by blast
        then show ?thesis using pre by auto
      qed
    qed
  next
    assume r: "\<forall>pre e post. e0 # es = pre @ e # post \<and> Q e \<longrightarrow> (\<exists>p\<in>set pre. P p)"
    have nq: "\<not> Q e0"
    proof
      assume "Q e0"
      with r [rule_format, of "[]" e0 es] show False by simp
    qed
    have "precedes P Q es" if "\<not> P e0"
    proof -
      have "\<exists>p\<in>set pre. P p" if "es = pre @ e # post \<and> Q e" for pre e post
      proof -
        from that r [rule_format, of "e0 # pre" e post] have "\<exists>p\<in>set (e0 # pre). P p" by simp
        with \<open>\<not> P e0\<close> show ?thesis by auto
      qed
      then show ?thesis using Cons.IH by blast
    qed
    with nq show "precedes P Q (e0 # es)" by auto
  qed
qed

lemma upload_after_ghi:
  "precedes (\<lambda>e. \<exists>outcome. e = GhiResponse outcome) (\<lambda>e. \<exists>file. e = UploadRequest file)
     (submit_handler f net)"
  by (auto simp: submit_handler_def fetchGHI_def fetchGHI_try_def upload_and_navigate_def Let_def
      split: fetch_outcome.splits option.splits sum.splits prod.splits if_splits)

lemma navigate_after_upload:
  "precedes (\<lambda>e. \<exists>msg parsed. e = UploadResponse (HttpResponse True msg parsed))
     (\<lambda>e. \<exists>ps. e = Navigate ps) (submit_handler f net)"
  by (auto simp: submit_handler_def fetchGHI_def fetchGHI_try_def upload_and_navigate_def Let_def
      split: fetch_outcome.splits option.splits sum.splits prod.splits if_splits)

lemma upload_request_first:
  "precedes (\<lambda>e. \<exists>file. e = UploadRequest file)
     (\<lambda>e. \<exists>outcome. e = UploadResponse outcome) (submit_handler f net)"
  by (auto simp: submit_handler_def fetchGHI_def fetchGHI_try_def upload_and_navigate_def Let_def
      split: fetch_outcome.splits option.splits sum.splits prod.splits if_splits)

lemma submit_falsy:
  assumes "fetchGHI (latitude f) (longitude f) (filter (\<lambda>c. c \<noteq> CHR ''-'') (date_value f))
             (ghi_outcome net) = (evs, Inr ghi)"
    and "\<not> truthy ghi"
  shows "submit_handler f net =
           PreventDefault # evs @ [Alert ''Failed to retrieve GHI data. Please try again.'']"
  using assms by (simp add: submit_handler_def)

lemma fetchGHI_events:
  "\<forall>e\<in>set (fst (fetchGHI lat lon date outcome)).
      (\<exists>url. e = GhiRequest url) \<or> (\<exists>out. e = GhiResponse out) \<or> (\<exists>msg. e = ConsoleError msg)"
  by (auto simp: fetchGHI_def fetchGHI_try_def
      split: fetch_outcome.splits option.splits sum.splits prod.splits if_splits)


lemma request_before_upload:
  "precedes (\<lambda>e. \<exists>url. e = GhiRequest url) (\<lambda>e. \<exists>file. e = UploadRequest file)
     (submit_handler f net)"
  by (auto simp: submit_handler_def fetchGHI_def fetchGHI_try_def upload_and_navigate_def Let_def
      split: fetch_outcome.splits option.splits sum.splits prod.splits if_splits)

lemma upload_before_navigate:
  "precedes (\<lambda>e. \<exists>file. e = UploadRequest file) (\<lambda>e. \<exists>ps. e = Navigate ps)
     (submit_handler f net)"
  by (auto simp: submit_handler_def fetchGHI_def fetchGHI_try_def upload_and_navigate_def Let_def
      split: fetch_outcome.splits option.splits sum.splits prod.splits if_splits)

lemma falsy_aborts:
  assumes "snd (fetchGHI (latitude f) (longitude f) (filter (\<lambda>c. c \<noteq> CHR ''-'') (date_value f))
             (ghi_outcome net)) = Inr ghi"
    and "\<not> truthy ghi"
  shows "(\<exists>pre. submit_handler f net =
            pre @ [Alert ''Failed to retrieve GHI data. Please try again.'']) \<and>
         (\<forall>file. UploadRequest file \<notin> set (submit_handler f net)) \<and>
         (\<forall>ps. Navigate ps \<notin> set (submit_handler f net))"
proof -
  let ?date = "filter (\<lambda>c. c \<noteq> CHR ''-'') (date_value f)"
  obtain evs where e: "fetchGHI (latitude f) (longitude f) ?date (ghi_outcome net) = (evs, Inr ghi)"
    using assms(1) by (cases "fetchGHI (latitude f) (longitude f) ?date (ghi_outcome net)") simp
  have tr: "submit_handler f net =
           PreventDefault # evs @ [Alert ''Failed to retrieve GHI data. Please try again.'']"
    using e assms(2) by (rule submit_falsy)
  have evs: "\<forall>e\<in>set evs. (\<exists>url. e = GhiRequest url) \<or> (\<exists>out. e = GhiResponse out) \<or>
               (\<exists>msg. e = ConsoleError msg)"
    using fetchGHI_events [of "latitude f" "longitude f" ?date "ghi_outcome net"] e by simp
  have "\<exists>pre. submit_handler f net =
            pre @ [Alert ''Failed to retrieve GHI data. Please try again.'']"
    using tr by (metis append_Cons)
  moreover have "\<forall>file. UploadRequest file \<notin> set (submit_handler f net)"
    using evs by (auto simp: tr)
  moreover have "\<forall>ps. Navigate ps \<notin> set (submit_handler f net)"
    using evs by (auto simp: tr)
  ultimately show ?thesis by blast
qed

text \<open>
  Claim C8. In every run of the submit handler the steps come in sequence: an upload
  request is issued only after the GHI request has been sent and answered; the navigation
  to the viewer happens only after the upload request and a successful upload response;
  and when \<open>fetchGHI\<close> yields \<open>null\<close> or \<open>undefined\<close> the run ends with the alert and
  contains neither an upload request nor a navigation.
\<close>

theorem submit_sequence:
  "(\<forall>pre file post. submit_handler f net = pre @ UploadRequest file # post \<longrightarrow>
      (\<exists>url. GhiRequest url \<in> set pre) \<and> (\<exists>outcome. GhiResponse outcome \<in> set pre)) \<and>
   (\<forall>pre ps post. submit_handler f net = pre @ Navigate ps # post \<longrightarrow>
      (\<exists>file. UploadRequest file \<in> set pre) \<and>
      (\<exists>msg parsed. UploadResponse (HttpResponse True msg parsed) \<in> set pre)) \<and>
   (snd (fetchGHI (latitude f) (longitude f) (filter (\<lambda>c. c \<noteq> CHR ''-'') (date_value f))
           (ghi_outcome net)) = Inr JNull \<or>
    snd (fetchGHI (latitude f) (longitude f) (filter (\<lambda>c. c \<noteq> CHR ''-'') (date_value f))
           (ghi_outcome net)) = Inr JUndefined \<longrightarrow>
      (\<exists>pre. submit_handler f net =
         pre @ [Alert ''Failed to retrieve GHI data. Please try again.'']) \<and>
      (\<forall>file. UploadRequest file \<notin> set (submit_handler f net)) \<and>
      (\<forall>ps. Navigate ps \<notin> set (submit_handler f net)))"
proof -
  let ?trace = "submit_handler f net"
  have one: "(\<exists>url. GhiRequest url \<in> set pre) \<and> (\<exists>outcome. GhiResponse outcome \<in> set pre)"
    if "?trace = pre @ UploadRequest upfile # post" for pre upfile post
    using request_before_upload [of f net] upload_after_ghi [of f net] that
    unfolding precedes_iff by blast
  have two: "(\<exists>upfile. UploadRequest upfile \<in> set pre) \<and>
      (\<exists>msg parsed. UploadResponse (HttpResponse True msg parsed) \<in> set pre)"
    if "?trace = pre @ Navigate ps # post" for pre ps post
    using upload_before_navigate [of f net] navigate_after_upload [of f net] that
    unfolding precedes_iff by blast
  have three: "(\<exists>pre. ?trace = pre @ [Alert ''Failed to retrieve GHI data. Please try again.'']) \<and>
      (\<forall>upfile. UploadRequest upfile \<notin> set ?trace) \<and> (\<forall>ps. Navigate ps \<notin> set ?trace)"
    if "snd (fetchGHI (latitude f) (longitude f) (filter (\<lambda>c. c \<noteq> CHR ''-'') (date_value f))
           (ghi_outcome net)) = Inr JNull \<or>
        snd (fetchGHI (latitude f) (longitude f) (filter (\<lambda>c. c \<noteq> CHR ''-'') (date_value f))
           (ghi_outcome net)) = Inr JUndefined"
    using that falsy_aborts [of f net JNull] falsy_aborts [of f net JUndefined] by auto
  show ?thesis
    using one two three by blast
qed


lemma upload_and_navigate_ghi:
  "Navigate ps \<in> set (fst (upload_and_navigate f date ghi outcome)) \<Longrightarrow>
     map_of ps ''ghi'' = Some ghi"
  by (auto simp: upload_and_navigate_def
      split: fetch_outcome.splits option.splits sum.splits if_splits)

lemma navigate_ghi_truthy:
  assumes "Navigate ps \<in> set (submit_handler f net)"
  shows "\<exists>ghi. map_of ps ''ghi'' = Some ghi \<and> truthy ghi"
proof -
  let ?date = "filter (\<lambda>c. c \<noteq> CHR ''-'') (date_value f)"
  obtain evs ghi where
    e: "fetchGHI (latitude f) (longitude f) ?date (ghi_outcome net) = (evs, Inr ghi)"
    using fetchGHI_returns by blast
  have evs: "Navigate ps \<notin> set evs"
    using fetchGHI_events [of "latitude f" "longitude f" ?date "ghi_outcome net"] e by auto
  show ?thesis
  proof (cases "truthy ghi")
    case False
    then have "submit_handler f net =
           PreventDefault # evs @ [Alert ''Failed to retrieve GHI data. Please try again.'']"
      using e by (simp add: submit_handler_def)
    then show ?thesis using assms evs by simp
  next
    case True
    obtain evs' r where u: "upload_and_navigate f ?date ghi (upload_outcome net) = (evs', r)"
      by (cases "upload_and_navigate f ?date ghi (upload_outcome net)") simp
    have "set (submit_handler f net) \<subseteq>
          {PreventDefault, ConsoleError ''Upload failed:''} \<union> set evs \<union> set evs'"
      using e u True by (cases r) (auto simp: submit_handler_def)
    then have "Navigate ps \<in> set evs'" using assms evs by auto
    then have "map_of ps ''ghi'' = Some ghi"
      using upload_and_navigate_ghi [of ps f ?date ghi "upload_outcome net"] u by simp
    then show ?thesis using True by blast
  qed
qed

lemma submit_success_example:
  "submit_handler
     \<lparr>chosen_file = Some ''city.gltf'', latitude = ''12.97'', longitude = ''77.59'',
      date_value = ''2024-01-01''\<rparr>
     \<lparr>ghi_outcome = HttpResponse True ''OK''
        (Some (JObj [(''properties'', JObj [(''parameter'',
           JObj [(''ALLSKY_SFC_SW_DWN'', JObj [(''20240101'', JNum 5.2)])])])])),
      upload_outcome = HttpResponse True ''OK''
        (Some (JObj [(''success'', JBool True), (''filename'', JStr ''1704067200000.gltf'')]))\<rparr> =
   [PreventDefault, GhiRequest (api_url ''12.97'' ''77.59'' ''20240101''),
    GhiResponse (HttpResponse True ''OK''
        (Some (JObj [(''properties'', JObj [(''parameter'',
           JObj [(''ALLSKY_SFC_SW_DWN'', JObj [(''20240101'', JNum 5.2)])])])]))),
    UploadRequest (Some ''city.gltf''),
    UploadResponse (HttpResponse True ''OK''
        (Some (JObj [(''success'', JBool True), (''filename'', JStr ''1704067200000.gltf'')]))),
    ConsoleLog (JNum 5.2),
    Navigate [(''model'', JStr ''1704067200000.gltf''), (''lat'', JStr ''12.97''),
              (''lng'', JStr ''77.59''), (''date'', JStr ''20240101''), (''ghi'', JNum 5.2)]]"
  by (simp add: submit_handler_def fetchGHI_def fetchGHI_try_def upload_and_navigate_def
      extract_ghi_def ghi_series_def Let_def)

theorem submit_sequence_witness:
  "submit_handler
     \<lparr>chosen_file = Some ''city.gltf'', latitude = ''12.97'', longitude = ''77.59'',
      date_value = ''2024-01-01''\<rparr>
     \<lparr>ghi_outcome = HttpResponse True ''OK''
        (Some (JObj [(''properties'', JObj [(''parameter'',
           JObj [(''ALLSKY_SFC_SW_DWN'', JObj [(''20240101'', JNum 5.2)])])])])),
      upload_outcome = HttpResponse True ''OK''
        (Some (JObj [(''success'', JBool True), (''filename'', JStr ''1704067200000.gltf'')]))\<rparr> =
   [PreventDefault, GhiRequest (api_url ''12.97'' ''77.59'' ''20240101''),
    GhiResponse (HttpResponse True ''OK''
        (Some (JObj [(''properties'', JObj [(''parameter'',
           JObj [(''ALLSKY_SFC_SW_DWN'', JObj [(''20240101'', JNum 5.2)])])])])))] @
   UploadRequest (Some ''city.gltf'') #
   [UploadResponse (HttpResponse True ''OK''
        (Some (JObj [(''success'', JBool True), (''filename'', JStr ''1704067200000.gltf'')]))),
    ConsoleLog (JNum 5.2),
    Navigate [(''model'', JStr ''1704067200000.gltf''), (''lat'', JStr ''12.97''),
              (''lng'', JStr ''77.59''), (''date'', JStr ''20240101''), (''ghi'', JNum 5.2)]] \<and>
   (\<exists>outcome. GhiResponse outcome \<in> set
      [PreventDefault, GhiRequest (api_url ''12.97'' ''77.59'' ''20240101''),
       GhiResponse (HttpResponse True ''OK''
        (Some (JObj [(''properties'', JObj [(''parameter'',
           JObj [(''ALLSKY_SFC_SW_DWN'', JObj [(''20240101'', JNum 5.2)])])])])))]) \<and>
   snd (fetchGHI ''12.97'' ''77.59'' ''20240101'' NetworkError) = Inr JNull \<and>
   (\<forall>upfile. UploadRequest upfile \<notin> set (submit_handler
     \<lparr>chosen_file = Some ''city.gltf'', latitude = ''12.97'', longitude = ''77.59'',
      date_value = ''2024-01-01''\<rparr>
     \<lparr>ghi_outcome = NetworkError,
      upload_outcome = HttpResponse True ''OK''
        (Some (JObj [(''success'', JBool True), (''filename'', JStr ''1704067200000.gltf'')]))\<rparr>))"
proof -
  let ?f = "\<lparr>chosen_file = Some ''city.gltf'', latitude = ''12.97'', longitude = ''77.59'',
      date_value = ''2024-01-01''\<rparr>"
  let ?up = "HttpResponse True ''OK''
        (Some (JObj [(''success'', JBool True), (''filename'', JStr ''1704067200000.gltf'')]))"
  let ?ghi = "HttpResponse True ''OK''
        (Some (JObj [(''properties'', JObj [(''parameter'',
           JObj [(''ALLSKY_SFC_SW_DWN'', JObj [(''20240101'', JNum 5.2)])])])]))"
  let ?pre = "[PreventDefault, GhiRequest (api_url ''12.97'' ''77.59'' ''20240101''),
              GhiResponse ?ghi]"
  let ?post = "[UploadResponse ?up, ConsoleLog (JNum 5.2),
    Navigate [(''model'', JStr ''1704067200000.gltf''), (''lat'', JStr ''12.97''),
              (''lng'', JStr ''77.59''), (''date'', JStr ''20240101''), (''ghi'', JNum 5.2)]]"
  have tr: "submit_handler ?f \<lparr>ghi_outcome = ?ghi, upload_outcome = ?up\<rparr> =
            ?pre @ UploadRequest (Some ''city.gltf'') # ?post"
    using submit_success_example by simp
  have before: "\<exists>outcome. GhiResponse outcome \<in> set ?pre"
    using tr submit_sequence [of ?f "\<lparr>ghi_outcome = ?ghi, upload_outcome = ?up\<rparr>"] by blast
  have null: "snd (fetchGHI ''12.97'' ''77.59'' ''20240101'' NetworkError) = Inr JNull"
    by (simp add: fetchGHI_def fetchGHI_try_def)
  then have "snd (fetchGHI (latitude ?f) (longitude ?f)
                (filter (\<lambda>c. c \<noteq> CHR ''-'') (date_value ?f))
                (ghi_outcome \<lparr>ghi_outcome = NetworkError, upload_outcome = ?up\<rparr>)) = Inr JNull"
    by simp
  then have none: "\<forall>upfile. UploadRequest upfile \<notin>
      set (submit_handler ?f \<lparr>ghi_outcome = NetworkError, upload_outcome = ?up\<rparr>)"
    using submit_sequence [of ?f "\<lparr>ghi_outcome = NetworkError, upload_outcome = ?up\<rparr>"]
    by blast
  show ?thesis using tr before null none by blast
qed


text \<open>
  Claim C10. When the API answers with the value 0 for the requested date, the submit
  handler does what it does when the date is missing from the answer: it shows the alert
  and stops, before any upload. In no run does a navigation carry a GHI value of 0.
\<close>

theorem zero_ghi_aborts:
  "(\<forall>msg data ghi. ghi_outcome net = HttpResponse True msg (Some data) \<and>
       extract_ghi data (filter (\<lambda>c. c \<noteq> CHR ''-'') (date_value f)) = Inr ghi \<and>
       (ghi = JNum 0 \<or> ghi = JUndefined) \<longrightarrow>
      submit_handler f net =
        [PreventDefault,
         GhiRequest (api_url (latitude f) (longitude f)
                       (filter (\<lambda>c. c \<noteq> CHR ''-'') (date_value f))),
         GhiResponse (ghi_outcome net),
         Alert ''Failed to retrieve GHI data. Please try again.'']) \<and>
   (\<forall>ps. Navigate ps \<in> set (submit_handler f net) \<longrightarrow>
      (\<exists>ghi. map_of ps ''ghi'' = Some ghi \<and> truthy ghi) \<and>
      map_of ps ''ghi'' \<noteq> Some (JNum 0))"
proof -
  have one: "submit_handler f net =
        [PreventDefault,
         GhiRequest (api_url (latitude f) (longitude f)
                       (filter (\<lambda>c. c \<noteq> CHR ''-'') (date_value f))),
         GhiResponse (ghi_outcome net),
         Alert ''Failed to retrieve GHI data. Please try again.'']"
    if "ghi_outcome net = HttpResponse True msg (Some data) \<and>
       extract_ghi data (filter (\<lambda>c. c \<noteq> CHR ''-'') (date_value f)) = Inr ghi \<and>
       (ghi = JNum 0 \<or> ghi = JUndefined)" for msg data ghi
    using that
    by (auto simp: submit_handler_def fetchGHI_def fetchGHI_try_def Let_def)
  have two: "(\<exists>ghi. map_of ps ''ghi'' = Some ghi \<and> truthy ghi) \<and>
      map_of ps ''ghi'' \<noteq> Some (JNum 0)"
    if "Navigate ps \<in> set (submit_handler f net)" for ps
    using navigate_ghi_truthy [OF that] by auto
  show ?thesis using one two by blast
qed

theorem zero_ghi_aborts_witness:
  "extract_ghi (JObj [(''properties'', JObj [(''parameter'',
           JObj [(''ALLSKY_SFC_SW_DWN'', JObj [(''20240101'', JNum 0)])])])]) ''20240101'' =
     Inr (JNum 0) \<and>
   submit_handler
     \<lparr>chosen_file = Some ''city.gltf'', latitude = ''12.97'', longitude = ''77.59'',
      date_value = ''2024-01-01''\<rparr>
     \<lparr>ghi_outcome = HttpResponse True ''OK''
        (Some (JObj [(''properties'', JObj [(''parameter'',
           JObj [(''ALLSKY_SFC_SW_DWN'', JObj [(''20240101'', JNum 0)])])])])),
      upload_outcome = HttpResponse True ''OK''
        (Some (JObj [(''success'', JBool True), (''filename'', JStr ''1704067200000.gltf'')]))\<rparr> =
   [PreventDefault, GhiRequest (api_url ''12.97'' ''77.59'' ''20240101''),
    GhiResponse (HttpResponse True ''OK''
        (Some (JObj [(''properties'', JObj [(''parameter'',
           JObj [(''ALLSKY_SFC_SW_DWN'', JObj [(''20240101'', JNum 0)])])])]))),
    Alert ''Failed to retrieve GHI data. Please try again.''] \<and>
   Navigate [(''model'', JStr ''1704067200000.gltf''), (''lat'', JStr ''12.97''),
             (''lng'', JStr ''77.59''), (''date'', JStr ''20240101''), (''ghi'', JNum 5.2)]
     \<in> set (submit_handler
       \<lparr>chosen_file = Some ''city.gltf'', latitude = ''12.97'', longitude = ''77.59'',
        date_value = ''2024-01-01''\<rparr>
       \<lparr>ghi_outcome = HttpResponse True ''OK''
          (Some (JObj [(''properties'', JObj [(''parameter'',
             JObj [(''ALLSKY_SFC_SW_DWN'', JObj [(''20240101'', JNum 5.2)])])])])),
        upload_outcome = HttpResponse True ''OK''
          (Some (JObj [(''success'', JBool True),
                       (''filename'', JStr ''1704067200000.gltf'')]))\<rparr>) \<and>
   map_of [(''model'', JStr ''1704067200000.gltf''), (''lat'', JStr ''12.97''),
           (''lng'', JStr ''77.59''), (''date'', JStr ''20240101''), (''ghi'', JNum 5.2)] ''ghi''
     \<noteq> Some (JNum 0)"
proof -
  let ?ps = "[(''model'', JStr ''1704067200000.gltf''), (''lat'', JStr ''12.97''),
             (''lng'', JStr ''77.59''), (''date'', JStr ''20240101''), (''ghi'', JNum 5.2)]"
  let ?good = "\<lparr>ghi_outcome = HttpResponse True ''OK''
          (Some (JObj [(''properties'', JObj [(''parameter'',
             JObj [(''ALLSKY_SFC_SW_DWN'', JObj [(''20240101'', JNum 5.2)])])])])),
        upload_outcome = HttpResponse True ''OK''
          (Some (JObj [(''success'', JBool True),
                       (''filename'', JStr ''1704067200000.gltf'')]))\<rparr>"
  let ?f = "\<lparr>chosen_file = Some ''city.gltf'', latitude = ''12.97'', longitude = ''77.59'',
      date_value = ''2024-01-01''\<rparr>"
  let ?up = "HttpResponse True ''OK''
        (Some (JObj [(''success'', JBool True), (''filename'', JStr ''1704067200000.gltf'')]))"
  let ?data = "JObj [(''properties'', JObj [(''parameter'',
           JObj [(''ALLSKY_SFC_SW_DWN'', JObj [(''20240101'', JNum 0)])])])]"
  let ?net = "\<lparr>ghi_outcome = HttpResponse True ''OK'' (Some ?data), upload_outcome = ?up\<rparr>"
  have x: "extract_ghi ?data ''20240101'' = Inr (JNum 0)"
    by (simp add: extract_ghi_def ghi_series_def)
  have d: "filter (\<lambda>c. c \<noteq> CHR ''-'') (date_value ?f) = ''20240101''" by simp
  have "ghi_outcome ?net = HttpResponse True ''OK'' (Some ?data) \<and>
        extract_ghi ?data (filter (\<lambda>c. c \<noteq> CHR ''-'') (date_value ?f)) = Inr (JNum 0) \<and>
        (JNum 0 = JNum 0 \<or> JNum 0 = JUndefined)"
    using x d by simp
  then have "submit_handler ?f ?net =
        [PreventDefault,
         GhiRequest (api_url (latitude ?f) (longitude ?f)
                       (filter (\<lambda>c. c \<noteq> CHR ''-'') (date_value ?f))),
         GhiResponse (ghi_outcome ?net),
         Alert ''Failed to retrieve GHI data. Please try again.'']"
    using zero_ghi_aborts [of ?net ?f] by blast
  then have first: "submit_handler ?f ?net =
        [PreventDefault, GhiRequest (api_url ''12.97'' ''77.59'' ''20240101''),
         GhiResponse (HttpResponse True ''OK'' (Some ?data)),
         Alert ''Failed to retrieve GHI data. Please try again.'']"
    by simp
  have n: "Navigate ?ps \<in> set (submit_handler ?f ?good)"
    unfolding submit_success_example by simp
  then have "map_of ?ps ''ghi'' \<noteq> Some (JNum 0)"
    using zero_ghi_aborts [of ?good ?f] by blast
  then show ?thesis using x first n by blast
qed


section \<open>Properties of the upload gateway\<close>












end
